theory Spec2Isabelle
  imports Main
begin

section \<open>JavaScript numbers\<close>

text \<open>
  The engine of \<^verbatim>\<open>pos-system.js\<close> counts stock and cart quantities in JavaScript numbers,
  which are IEEE-754 doubles. Quantities are whole numbers wherever the page supplies them
  (\<^verbatim>\<open>parseInt\<close> of an attribute or of the quantity field); they are modelled by \<open>jsnum\<close>:
  \<open>Num k\<close> is the double whose value is the integer \<open>k\<close> (both zeros are \<open>Num 0\<close>; no
  operation of the engine tells them apart), next to the two infinities and \<^verbatim>\<open>NaN\<close>.
  A quantity with a fractional part, which a script could pass, has no counterpart here.
  Sums and differences are rounded as the double operations round them: to 53
  significant bits, a tie going to the even significand, and to an infinity beyond the
  largest double. Prices, tax rate, shipping cost and totals are doubles of any value;
  their type \<open>'n\<close> and their arithmetic are left to the host (see \<open>host\<close> below).
\<close>

datatype jsnum = Num int | PosInf | NegInf | NaN

text \<open>The number of binary digits of a natural number.\<close>

fun bit_length :: "nat \<Rightarrow> nat" where
  "bit_length n = (if n = 0 then 0 else Suc (bit_length (n div 2)))"

declare bit_length.simps [simp del]

text \<open>
  The double nearest to the integer \<open>x\<close>: \<open>m\<close> is the magnitude cut to its 53 leading
  bits, \<open>r\<close> what was cut off, \<open>e\<close> the number of bits cut off.
\<close>

definition to_double :: "int \<Rightarrow> jsnum" where
  "to_double x =
     (let a = nat \<bar>x\<bar>;
          e = bit_length a - 53;
          m = a div 2 ^ e;
          r = a mod 2 ^ e;
          m' = (if 2 * r > 2 ^ e \<or> (2 * r = 2 ^ e \<and> odd m) then m + 1 else m);
          y = int (m' * 2 ^ e)
      in if y \<ge> 2 ^ 1024 then (if x < 0 then NegInf else PosInf)
         else Num (if x < 0 then - y else y))"

text \<open>\<^verbatim>\<open>Number.MAX_SAFE_INTEGER\<close> and \<^verbatim>\<open>Number.isSafeInteger\<close>.\<close>

definition MAX_SAFE_INTEGER :: int where
  "MAX_SAFE_INTEGER = 2 ^ 53 - 1"

definition safe_integer :: "int \<Rightarrow> bool" where
  "safe_integer k = (\<bar>k\<bar> \<le> MAX_SAFE_INTEGER)"

text \<open>\<^verbatim>\<open>a + b\<close>, \<^verbatim>\<open>-a\<close>, \<^verbatim>\<open>a - b\<close> and \<^verbatim>\<open>a < b\<close> on numbers.\<close>

fun num_add :: "jsnum \<Rightarrow> jsnum \<Rightarrow> jsnum" where
  "num_add (Num a) (Num b) = to_double (a + b)"
| "num_add NaN b = NaN"
| "num_add a NaN = NaN"
| "num_add PosInf NegInf = NaN"
| "num_add NegInf PosInf = NaN"
| "num_add PosInf b = PosInf"
| "num_add NegInf b = NegInf"
| "num_add a PosInf = PosInf"
| "num_add a NegInf = NegInf"

fun num_neg :: "jsnum \<Rightarrow> jsnum" where
  "num_neg (Num a) = Num (- a)"
| "num_neg PosInf = NegInf"
| "num_neg NegInf = PosInf"
| "num_neg NaN = NaN"

definition num_sub :: "jsnum \<Rightarrow> jsnum \<Rightarrow> jsnum" where
  "num_sub a b = num_add a (num_neg b)"

fun num_lt :: "jsnum \<Rightarrow> jsnum \<Rightarrow> bool" where
  "num_lt (Num a) (Num b) = (a < b)"
| "num_lt NaN b = False"
| "num_lt a NaN = False"
| "num_lt PosInf b = False"
| "num_lt a NegInf = False"
| "num_lt NegInf b = True"
| "num_lt a PosInf = True"

text \<open>A number is falsy when it is zero or \<^verbatim>\<open>NaN\<close>.\<close>

definition num_truthy :: "jsnum \<Rightarrow> bool" where
  "num_truthy a = (a \<noteq> Num 0 \<and> a \<noteq> NaN)"


section \<open>The ledger object\<close>

text \<open>
  \<^verbatim>\<open>this.inventory\<close> is a plain object: its own properties are the ledger entries, and a
  read of a key it does not own falls through to \<^verbatim>\<open>Object.prototype\<close>. What a read can
  give is a \<open>jsval\<close>: \<^verbatim>\<open>undefined\<close>, a number, the value \<open>Inherited k\<close> that
  \<^verbatim>\<open>Object.prototype\<close> holds under the name \<open>k\<close> (a function, or the prototype object
  itself for \<^verbatim>\<open>__proto__\<close>), or the string \<open>Str v a\<close> that \<^verbatim>\<open>v + a\<close> yields when \<open>v\<close> is
  not a number. Inherited values and these strings are truthy, and as numbers they
  are \<^verbatim>\<open>NaN\<close>.
\<close>

datatype jsval = Undefined | Number jsnum | Inherited string | Str jsval jsnum

type_synonym ledger = "string \<rightharpoonup> jsval"

text \<open>The property names of \<^verbatim>\<open>Object.prototype\<close> in a browser.\<close>

definition prototype_names :: "string list" where
  "prototype_names =
     [''constructor'', ''hasOwnProperty'', ''isPrototypeOf'', ''propertyIsEnumerable'',
      ''toLocaleString'', ''toString'', ''valueOf'', ''__proto__'',
      ''__defineGetter__'', ''__defineSetter__'', ''__lookupGetter__'', ''__lookupSetter__'']"

text \<open>\<^verbatim>\<open>ledger[key]\<close>.\<close>

definition lookup :: "ledger \<Rightarrow> string \<Rightarrow> jsval" where
  "lookup l key =
     (case l key of
        Some v \<Rightarrow> v
      | None \<Rightarrow> if key \<in> set prototype_names then Inherited key else Undefined)"

text \<open>\<^verbatim>\<open>key in ledger\<close>.\<close>

definition has_key :: "string \<Rightarrow> ledger \<Rightarrow> bool" where
  "has_key key l = (l key \<noteq> None \<or> key \<in> set prototype_names)"

text \<open>
  \<^verbatim>\<open>ledger[key] = v\<close> for a number or string \<open>v\<close>. An own property is overwritten. The
  inherited \<^verbatim>\<open>__proto__\<close> is an accessor whose setter ignores such values; every other
  inherited name is a writable data property, so the assignment creates an own property.
\<close>

definition assign :: "string \<Rightarrow> jsval \<Rightarrow> ledger \<Rightarrow> ledger" where
  "assign key v l = (if l key = None \<and> key = ''__proto__'' then l else l(key \<mapsto> v))"

text \<open>\<^verbatim>\<open>x || 0\<close>.\<close>

fun or_zero :: "jsval \<Rightarrow> jsval" where
  "or_zero Undefined = Number (Num 0)"
| "or_zero (Number a) = (if num_truthy a then Number a else Number (Num 0))"
| "or_zero (Inherited k) = Inherited k"
| "or_zero (Str v a) = Str v a"

text \<open>\<^verbatim>\<open>x < a\<close> for a number \<open>a\<close>: a value that is not a number compares as \<^verbatim>\<open>NaN\<close>.\<close>

fun js_less :: "jsval \<Rightarrow> jsnum \<Rightarrow> bool" where
  "js_less (Number x) a = num_lt x a"
| "js_less Undefined a = False"
| "js_less (Inherited k) a = False"
| "js_less (Str v b) a = False"

text \<open>\<^verbatim>\<open>x - a\<close> and \<^verbatim>\<open>x + a\<close> for a number \<open>a\<close>.\<close>

fun js_minus :: "jsval \<Rightarrow> jsnum \<Rightarrow> jsval" where
  "js_minus (Number x) a = Number (num_sub x a)"
| "js_minus Undefined a = Number NaN"
| "js_minus (Inherited k) a = Number NaN"
| "js_minus (Str v b) a = Number NaN"

fun js_plus :: "jsval \<Rightarrow> jsnum \<Rightarrow> jsval" where
  "js_plus (Number x) a = Number (num_add x a)"
| "js_plus Undefined a = Number NaN"
| "js_plus (Inherited k) a = Str (Inherited k) a"
| "js_plus (Str v b) a = Str (Str v b) a"

text \<open>\<^verbatim>\<open>a || b\<close> on an attribute value: \<^verbatim>\<open>null\<close> and the empty string are falsy.\<close>

fun or_str :: "string option \<Rightarrow> string \<Rightarrow> string" where
  "or_str None d = d"
| "or_str (Some s) d = (if s = [] then d else s)"


section \<open>Arrays\<close>

text \<open>\<^verbatim>\<open>Array.prototype.findIndex\<close>; \<open>None\<close> stands for the result \<^verbatim>\<open>-1\<close>.\<close>

fun findIndex :: "('a \<Rightarrow> bool) \<Rightarrow> 'a list \<Rightarrow> nat option" where
  "findIndex P [] = None"
| "findIndex P (x # xs) = (if P x then Some 0 else map_option Suc (findIndex P xs))"

text \<open>
  \<^verbatim>\<open>Array.prototype.find\<close> is \<^const>\<open>List.find\<close>. The object it returns is shared with the
  array, so an assignment to one of its fields changes the first matching array element:
\<close>

fun mutate_found :: "('a \<Rightarrow> bool) \<Rightarrow> ('a \<Rightarrow> 'a) \<Rightarrow> 'a list \<Rightarrow> 'a list" where
  "mutate_found P f [] = []"
| "mutate_found P f (x # xs) = (if P x then f x # xs else x # mutate_found P f xs)"

text \<open>\<^verbatim>\<open>xs.splice(i, 1)\<close>.\<close>

definition splice1 :: "nat \<Rightarrow> 'a list \<Rightarrow> 'a list" where
  "splice1 i xs = take i xs @ drop (Suc i) xs"


section \<open>Data model\<close>

record 'n product =
  p_id :: string
  p_name :: string
  p_price :: 'n
  p_inventory :: jsnum
  p_category :: string
  p_description :: string
  p_image :: string
  p_sku :: string
  p_element :: nat

record 'n line_item =
  i_id :: string
  i_name :: string
  i_price :: 'n
  i_quantity :: jsnum
  i_sku :: string
  i_image :: string

record 'n totals =
  subtotal :: 'n
  tax :: 'n
  shipping :: 'n
  total :: 'n
  itemCount :: jsnum

record 'n checkout_data =
  cd_cart :: "'n line_item list"
  cd_totals :: "'n totals"
  cd_timestamp :: string

record 'n order =
  o_data :: "'n checkout_data"
  o_id :: string
  o_status :: string

record 'n pos_options =
  apiEndpoint :: "string option"
  taxRate :: 'n
  shippingCost :: 'n
  notifications :: bool

datatype 'n event =
    Initialized
  | ProductsScanned "'n product list"
  | ItemAdded string jsnum "'n line_item list"
  | ItemRemoved string jsnum "'n line_item list"
  | CartCleared
  | CheckoutStarted "'n checkout_data"
  | CheckoutCompleted "'n checkout_data"
  | ApiSuccess string
  | ApiError

text \<open>
  The state of one \<^verbatim>\<open>UniversalPOS\<close> instance. \<open>events\<close> is the trace of \<^verbatim>\<open>emit\<close> calls
  and \<open>notices\<close> the trace of notifications shown, both oldest first; \<open>orders\<close> is the
  array kept under the storage key \<^verbatim>\<open>universal-pos-orders\<close>. The rendering of the cart
  and of the stock texts after a cart operation and the best-effort \<^verbatim>\<open>saveData\<close>
  snapshot write no field of the engine and are left out.
\<close>

record 'n pos_state =
  options :: "'n pos_options"
  cart :: "'n line_item list"
  inventory :: ledger
  products :: "'n product list"
  events :: "'n event list"
  notices :: "(string \<times> string) list"
  orders :: "'n order list"

definition emit :: "'n event \<Rightarrow> 'n pos_state \<Rightarrow> 'n pos_state" where
  "emit e s = s\<lparr>events := events s @ [e]\<rparr>"

definition showNotification :: "string \<Rightarrow> string \<Rightarrow> 'n pos_state \<Rightarrow> 'n pos_state" where
  "showNotification message type s =
     (if \<not> notifications (options s) then s
      else s\<lparr>notices := notices s @ [(message, type)]\<rparr>)"


section \<open>Cart engine\<close>

text \<open>
  \<^verbatim>\<open>addToCart(productId, quantity = 1)\<close>. The argument \<open>None\<close> is the omitted quantity.
  The three early returns give \<open>False\<close>; each has shown its notification and nothing
  else.
\<close>

definition addToCart :: "string \<Rightarrow> jsnum option \<Rightarrow> 'n pos_state \<Rightarrow> bool \<times> 'n pos_state" where
  "addToCart productId qarg s =
     (let quantity = (case qarg of None \<Rightarrow> Num 1 | Some q \<Rightarrow> q) in
      case find (\<lambda>p. p_id p = productId) (products s) of
        None \<Rightarrow> (False, showNotification ''Product not found'' ''error'' s)
      | Some product \<Rightarrow>
          let availableStock = or_zero (lookup (inventory s) productId) in
          if js_less availableStock quantity
          then (False, showNotification ''Insufficient stock'' ''error'' s)
          else
            (case find (\<lambda>item. i_id item = productId) (cart s) of
               Some existingItem \<Rightarrow>
                 let totalQuantity = num_add (i_quantity existingItem) quantity in
                 if js_less availableStock totalQuantity
                 then (False,
                       showNotification ''Not enough stock for requested quantity'' ''error'' s)
                 else
                   let s1 = s\<lparr>cart := mutate_found (\<lambda>item. i_id item = productId)
                                   (\<lambda>item. item\<lparr>i_quantity := totalQuantity\<rparr>) (cart s)\<rparr>;
                       s2 = s1\<lparr>inventory :=
                                 assign productId (js_minus (lookup (inventory s1) productId) quantity)
                                   (inventory s1)\<rparr>;
                       s3 = showNotification (p_name product @ '' added to cart'') ''success'' s2
                   in (True, emit (ItemAdded productId quantity (cart s3)) s3)
             | None \<Rightarrow>
                 let s1 = s\<lparr>cart := cart s @
                             [\<lparr>i_id = productId, i_name = p_name product,
                               i_price = p_price product, i_quantity = quantity,
                               i_sku = p_sku product, i_image = p_image product\<rparr>]\<rparr>;
                     s2 = s1\<lparr>inventory :=
                               assign productId (js_minus (lookup (inventory s1) productId) quantity)
                                 (inventory s1)\<rparr>;
                     s3 = showNotification (p_name product @ '' added to cart'') ''success'' s2
                 in (True, emit (ItemAdded productId quantity (cart s3)) s3)))"

text \<open>
  \<^verbatim>\<open>removeFromCart(productId, quantity = null)\<close>. \<^verbatim>\<open>quantity || cartItem.quantity\<close> and
  the test \<^verbatim>\<open>quantity && ...\<close> treat \<^verbatim>\<open>null\<close>, \<^verbatim>\<open>0\<close> and \<^verbatim>\<open>NaN\<close> alike.
\<close>

definition truthy :: "jsnum option \<Rightarrow> bool" where
  "truthy q = (case q of None \<Rightarrow> False | Some a \<Rightarrow> num_truthy a)"

definition removeFromCart :: "string \<Rightarrow> jsnum option \<Rightarrow> 'n pos_state \<Rightarrow> bool \<times> 'n pos_state" where
  "removeFromCart productId quantity s =
     (case findIndex (\<lambda>item. i_id item = productId) (cart s) of
        None \<Rightarrow> (False, s)
      | Some cartItemIndex \<Rightarrow>
          let cartItem = cart s ! cartItemIndex;
              removeQuantity = (if truthy quantity then the quantity else i_quantity cartItem);
              s1 = s\<lparr>inventory :=
                       assign productId
                         (js_plus (or_zero (lookup (inventory s) productId)) removeQuantity)
                         (inventory s)\<rparr>;
              s2 = (if truthy quantity \<and> num_lt (the quantity) (i_quantity cartItem)
                    then s1\<lparr>cart := (cart s1)[cartItemIndex :=
                                cartItem\<lparr>i_quantity := num_sub (i_quantity cartItem) (the quantity)\<rparr>]\<rparr>
                    else s1\<lparr>cart := splice1 cartItemIndex (cart s1)\<rparr>)
          in (True, emit (ItemRemoved productId removeQuantity (cart s2)) s2))"

text \<open>\<^verbatim>\<open>clearCart()\<close>: every line item's quantity goes back to the ledger, in cart order.\<close>

definition release_item :: "'n line_item \<Rightarrow> ledger \<Rightarrow> ledger" where
  "release_item item l =
     assign (i_id item) (js_plus (or_zero (lookup l (i_id item))) (i_quantity item)) l"

definition clearCart :: "'n pos_state \<Rightarrow> 'n pos_state" where
  "clearCart s =
     emit CartCleared (s\<lparr>inventory := fold release_item (cart s) (inventory s), cart := []\<rparr>)"

text \<open>\<^verbatim>\<open>setInventory(productId, quantity)\<close>: the number is assigned as it is given.\<close>

definition setInventory :: "string \<Rightarrow> jsnum \<Rightarrow> 'n pos_state \<Rightarrow> 'n pos_state" where
  "setInventory productId quantity s =
     s\<lparr>inventory := assign productId (Number quantity) (inventory s)\<rparr>"


section \<open>The host\<close>

text \<open>
  What the engine takes from the JavaScript host and the browser is a parameter of the
  model: the number parsers, \<^verbatim>\<open>isNaN\<close>, \<^verbatim>\<open>String.prototype.trim\<close>, the conversion of a
  value to text (as a template literal or a DOM property does it), the value
  sanitisation of a number input, and the double arithmetic on prices: \<open>n_of\<close> reads a
  quantity as a price-typed number, \<open>n_add\<close>, \<open>n_mul\<close>, \<open>n_div\<close> are \<^verbatim>\<open>+\<close>, \<^verbatim>\<open>*\<close>, \<^verbatim>\<open>/\<close>
  and \<open>n_round\<close> is \<^verbatim>\<open>Math.round\<close>.
\<close>

record 'n host =
  parseFloat :: "string \<Rightarrow> 'n"
  isNaN :: "'n \<Rightarrow> bool"
  parseInt :: "string \<Rightarrow> jsnum"
  trim :: "string \<Rightarrow> string"
  toText :: "jsval \<Rightarrow> string"
  sanitize :: "string \<Rightarrow> string"
  n_of :: "jsnum \<Rightarrow> 'n"
  n_add :: "'n \<Rightarrow> 'n \<Rightarrow> 'n"
  n_mul :: "'n \<Rightarrow> 'n \<Rightarrow> 'n"
  n_div :: "'n \<Rightarrow> 'n \<Rightarrow> 'n"
  n_round :: "'n \<Rightarrow> 'n"


section \<open>Totals\<close>

text \<open>\<^verbatim>\<open>Math.round(x * 100) / 100\<close>.\<close>

definition round2 :: "'n host \<Rightarrow> 'n \<Rightarrow> 'n" where
  "round2 h x = n_div h (n_round h (n_mul h x (n_of h (Num 100)))) (n_of h (Num 100))"

definition calculateTotals :: "'n host \<Rightarrow> 'n pos_state \<Rightarrow> 'n totals" where
  "calculateTotals h s =
     (let subtotal = fold (\<lambda>item sum. n_add h sum (n_mul h (i_price item) (n_of h (i_quantity item))))
                       (cart s) (n_of h (Num 0));
          tax = n_mul h subtotal (taxRate (options s));
          shipping = shippingCost (options s);
          total = n_add h (n_add h subtotal tax) shipping
      in \<lparr>subtotal = round2 h subtotal,
          tax = round2 h tax,
          shipping = round2 h shipping,
          total = round2 h total,
          itemCount = fold (\<lambda>item sum. num_add sum (i_quantity item)) (cart s) (Num 0)\<rparr>)"


section \<open>Checkout\<close>

text \<open>
  What the environment answers during one checkout: the clock, the user's answer to the
  confirmation dialog, and the outcome of \<^verbatim>\<open>fetch\<close>. \<open>Response ok body\<close> is a response
  with the flag \<^verbatim>\<open>response.ok\<close> and the result of \<^verbatim>\<open>response.json()\<close>, \<open>None\<close> when
  that promise rejects.
\<close>

datatype fetch_outcome = NetworkError | Response bool "string option"

record checkout_env =
  now_iso :: string
  date_now :: string
  confirm_answer :: bool
  fetch_result :: fetch_outcome

definition completeCheckout ::
  "checkout_env \<Rightarrow> 'n checkout_data \<Rightarrow> 'n pos_state \<Rightarrow> 'n pos_state" where
  "completeCheckout env checkoutData s =
     (let s1 = s\<lparr>orders := orders s @
                  [\<lparr>o_data = checkoutData, o_id = date_now env, o_status = ''completed''\<rparr>]\<rparr>;
          s2 = clearCart s1;
          s3 = showNotification ''Order completed successfully!'' ''success'' s2
      in emit (CheckoutCompleted checkoutData) s3)"

definition showCheckoutSummary ::
  "checkout_env \<Rightarrow> 'n checkout_data \<Rightarrow> 'n pos_state \<Rightarrow> 'n pos_state" where
  "showCheckoutSummary env checkoutData s =
     (if confirm_answer env then completeCheckout env checkoutData s else s)"

text \<open>
  \<^verbatim>\<open>submitToAPI\<close> is asynchronous; the model runs it to completion with the outcome of
  the request given by the environment. Every failure (a rejected \<^verbatim>\<open>fetch\<close>, a response
  that is not ok, a body that is not JSON) reaches the same \<^verbatim>\<open>catch\<close> block.
\<close>

definition submitToAPI ::
  "checkout_env \<Rightarrow> 'n checkout_data \<Rightarrow> 'n pos_state \<Rightarrow> 'n pos_state" where
  "submitToAPI env checkoutData s =
     (case fetch_result env of
        Response True (Some result) \<Rightarrow>
          completeCheckout env checkoutData (emit (ApiSuccess result) s)
      | _ \<Rightarrow> emit ApiError (showNotification ''Checkout failed. Please try again.'' ''error'' s))"

definition startCheckout :: "'n host \<Rightarrow> checkout_env \<Rightarrow> 'n pos_state \<Rightarrow> 'n pos_state" where
  "startCheckout h env s =
     (if length (cart s) = 0 then showNotification ''Cart is empty'' ''error'' s
      else
        let totals = calculateTotals h s;
            checkoutData = \<lparr>cd_cart = cart s, cd_totals = totals, cd_timestamp = now_iso env\<rparr>;
            s1 = emit (CheckoutStarted checkoutData) s
        in if apiEndpoint (options s1) \<noteq> None \<and> apiEndpoint (options s1) \<noteq> Some []
           then submitToAPI env checkoutData s1
           else showCheckoutSummary env checkoutData s1)"


section \<open>Document and catalog scanner\<close>

text \<open>
  A product element of the page: its attributes, the text of its own content, its class
  list, and the three affordances \<^verbatim>\<open>enhanceProductElement\<close> looks up by class and creates
  when missing (the add button, the quantity input, the stock text). The document is
  the list of its elements in document order; product elements are not nested. Created
  affordances are appended, so they follow the element's own content.
\<close>

record button =
  b_text :: string
  b_disabled :: bool

record quantity_field =
  in_value :: string
  in_min :: string
  in_max :: string

record stock_text =
  sp_text :: string
  sp_class :: string

record element =
  attrs :: "string \<rightharpoonup> string"
  own_text :: string
  classList :: "string list"
  add_button :: "button option"
  quantity_input :: "quantity_field option"
  stock_display :: "stock_text option"

definition getAttribute :: "element \<Rightarrow> string \<Rightarrow> string option" where
  "getAttribute el name = attrs el name"

text \<open>\<^verbatim>\<open>element.textContent\<close>: the text of all descendants, in document order.\<close>

definition textContent :: "element \<Rightarrow> string" where
  "textContent el =
     own_text el
     @ (case add_button el of None \<Rightarrow> [] | Some b \<Rightarrow> b_text b)
     @ (case stock_display el of None \<Rightarrow> [] | Some sp \<Rightarrow> sp_text sp)"

text \<open>
  \<^verbatim>\<open>parseProductElement(element)\<close>; \<open>None\<close> is the result \<^verbatim>\<open>null\<close>. \<open>idx\<close> is the position
  of the element in the document and stands for the reference kept in \<^verbatim>\<open>product.element\<close>.
\<close>

definition parseProductElement :: "'n host \<Rightarrow> nat \<Rightarrow> element \<Rightarrow> 'n product option" where
  "parseProductElement h idx el =
     (let id = getAttribute el ''data-pos-product'';
          name = or_str (getAttribute el ''data-pos-name'')
                   (or_str (Some (trim h (textContent el)))
                      (''Product '' @ (case id of None \<Rightarrow> ''null'' | Some i \<Rightarrow> i)));
          price = parseFloat h (or_str (getAttribute el ''data-pos-price'') ''0'');
          inventory = parseInt h (or_str (getAttribute el ''data-pos-inventory'') ''999'');
          category = or_str (getAttribute el ''data-pos-category'') ''general'';
          description = or_str (getAttribute el ''data-pos-description'') [];
          image = or_str (getAttribute el ''data-pos-image'') []
      in case id of
           None \<Rightarrow> None
         | Some i \<Rightarrow>
             if i = [] \<or> isNaN h price then None
             else Some \<lparr>p_id = i, p_name = name, p_price = price, p_inventory = inventory,
                        p_category = category, p_description = description, p_image = image,
                        p_sku = or_str (getAttribute el ''data-pos-sku'') i, p_element = idx\<rparr>)"

definition initializeInventory :: "'n product \<Rightarrow> 'n pos_state \<Rightarrow> 'n pos_state" where
  "initializeInventory product s =
     (if \<not> has_key (p_id product) (inventory s)
      then s\<lparr>inventory := assign (p_id product) (Number (p_inventory product)) (inventory s)\<rparr>
      else s)"

text \<open>
  \<^verbatim>\<open>updateStockDisplay(productId)\<close> and \<^verbatim>\<open>updateAddButton(productId)\<close> write into the
  element of the first product with that identifier.
\<close>

definition updateStockDisplay ::
  "'n host \<Rightarrow> string \<Rightarrow> element list \<times> 'n pos_state \<Rightarrow> element list" where
  "updateStockDisplay h productId ds =
     (case ds of (doc, s) \<Rightarrow>
        (case find (\<lambda>p. p_id p = productId) (products s) of
           None \<Rightarrow> doc
         | Some product \<Rightarrow>
             let el = doc ! p_element product in
             (case stock_display el of
                None \<Rightarrow> doc
              | Some stockDisplay \<Rightarrow>
                  let stock = or_zero (lookup (inventory s) productId) in
                  doc[p_element product := el\<lparr>stock_display := Some
                        \<lparr>sp_text = ''Stock: '' @ toText h stock,
                          sp_class = ''pos-stock '' @
                            (if stock = Number (Num 0) then ''pos-out-of-stock''
                             else if js_less stock (Num 5) then ''pos-low-stock'' else [])\<rparr>\<rparr>])))"

text \<open>\<^verbatim>\<open>parseInt(quantityInput.value) || 1\<close>, and \<^verbatim>\<open>x >= a\<close> for a number \<open>a\<close>.\<close>

definition or_one :: "jsnum \<Rightarrow> jsnum" where
  "or_one a = (if num_truthy a then a else Num 1)"

fun js_ge :: "jsval \<Rightarrow> jsnum \<Rightarrow> bool" where
  "js_ge (Number x) a = (x \<noteq> NaN \<and> a \<noteq> NaN \<and> \<not> num_lt x a)"
| "js_ge Undefined a = False"
| "js_ge (Inherited k) a = False"
| "js_ge (Str v b) a = False"

definition updateAddButton ::
  "'n host \<Rightarrow> string \<Rightarrow> element list \<times> 'n pos_state \<Rightarrow> element list" where
  "updateAddButton h productId ds =
     (case ds of (doc, s) \<Rightarrow>
        (case find (\<lambda>p. p_id p = productId) (products s) of
           None \<Rightarrow> doc
         | Some product \<Rightarrow>
             let el = doc ! p_element product in
             (case (add_button el, quantity_input el) of
                (Some addButton, Some quantityInput) \<Rightarrow>
                  let requestedQuantity = or_one (parseInt h (in_value quantityInput));
                      availableStock = or_zero (lookup (inventory s) productId);
                      isAvailable = js_ge availableStock requestedQuantity
                  in doc[p_element product := el
                       \<lparr>add_button := Some
                          \<lparr>b_text = (if isAvailable then ''Add to Cart'' else ''Out of Stock''),
                            b_disabled = (\<not> isAvailable)\<rparr>,
                        quantity_input := Some (quantityInput
                          \<lparr>in_max := toText h availableStock,
                            in_value := (if js_less availableStock requestedQuantity
                                         then sanitize h (toText h availableStock)
                                         else in_value quantityInput)\<rparr>)\<rparr>]
              | _ \<Rightarrow> doc)))"

text \<open>
  \<^verbatim>\<open>enhanceProductElement(element, product)\<close>, for the element at position \<open>idx\<close>. The
  listeners it registers run later and are not part of the scan.
\<close>

definition enhanceProductElement ::
  "'n host \<Rightarrow> nat \<Rightarrow> 'n product \<Rightarrow> element list \<times> 'n pos_state \<Rightarrow> element list" where
  "enhanceProductElement h idx product ds =
     (case ds of (doc, s) \<Rightarrow>
        let e0 = doc ! idx;
            e1 = e0\<lparr>classList := (if ''pos-product'' \<in> set (classList e0) then classList e0
                                   else classList e0 @ [''pos-product''])\<rparr>;
            e2 = (if add_button e1 = None
                  then e1\<lparr>add_button := Some \<lparr>b_text = ''Add to Cart'', b_disabled = False\<rparr>\<rparr>
                  else e1);
            e3 = (if quantity_input e2 = None
                  then e2\<lparr>quantity_input := Some \<lparr>in_value = ''1'', in_min = ''1'', in_max = []\<rparr>\<rparr>
                  else e2);
            e4 = (if stock_display e3 = None
                  then e3\<lparr>stock_display := Some \<lparr>sp_text = [], sp_class = ''pos-stock''\<rparr>\<rparr>
                  else e3);
            doc1 = doc[idx := e4];
            doc2 = updateStockDisplay h (p_id product) (doc1, s)
        in updateAddButton h (p_id product) (doc2, s))"

text \<open>The body of the \<^verbatim>\<open>forEach\<close> of \<^verbatim>\<open>scanProducts\<close>, for the element at position \<open>idx\<close>.\<close>

definition scan_element ::
  "'n host \<Rightarrow> nat \<Rightarrow> element list \<times> 'n pos_state \<Rightarrow> element list \<times> 'n pos_state" where
  "scan_element h idx ds =
     (case ds of (doc, s) \<Rightarrow>
        (case parseProductElement h idx (doc ! idx) of
           None \<Rightarrow> (doc, s)
         | Some product \<Rightarrow>
             let s1 = s\<lparr>products := products s @ [product]\<rparr>;
                 s2 = initializeInventory product s1
             in (enhanceProductElement h idx product (doc, s2), s2)))"

text \<open>\<^verbatim>\<open>document.querySelectorAll('[data-pos-product]')\<close>, as positions in the document.\<close>

definition productElements :: "element list \<Rightarrow> nat list" where
  "productElements doc = filter (\<lambda>i. attrs (doc ! i) ''data-pos-product'' \<noteq> None) [0..<length doc]"

definition scanProducts ::
  "'n host \<Rightarrow> element list \<times> 'n pos_state \<Rightarrow> element list \<times> 'n pos_state" where
  "scanProducts h ds =
     (case ds of (doc, s) \<Rightarrow>
        (case fold (scan_element h) (productElements doc) (doc, s\<lparr>products := []\<rparr>) of
           (doc', s') \<Rightarrow> (doc', emit (ProductsScanned (products s')) s')))"


section \<open>Sequences of cart operations\<close>

datatype cart_op =
    AddToCart string "jsnum option"
  | RemoveFromCart string "jsnum option"
  | ClearCart

fun apply_op :: "cart_op \<Rightarrow> 'n pos_state \<Rightarrow> 'n pos_state" where
  "apply_op (AddToCart p q) s = snd (addToCart p q s)"
| "apply_op (RemoveFromCart p q) s = snd (removeFromCart p q s)"
| "apply_op ClearCart s = clearCart s"

definition run :: "cart_op list \<Rightarrow> 'n pos_state \<Rightarrow> 'n pos_state" where
  "run ops s = fold apply_op ops s"

text \<open>The quantity the cart holds of a product: that of its line item, 0 without one.\<close>

definition cart_quantity :: "string \<Rightarrow> 'n pos_state \<Rightarrow> jsnum" where
  "cart_quantity p s =
     fold (\<lambda>item sum. num_add sum (i_quantity item))
       (filter (\<lambda>item. i_id item = p) (cart s)) (Num 0)"


section \<open>A shop with one product\<close>

text \<open>
  The state of a new instance before \<^verbatim>\<open>init\<close>, with nothing in storage, and the page
  of the recurring scenario: product \<^verbatim>\<open>mug-1\<close>, price 10.00, stock 5. In the examples
  prices are whole numbers, carried as integers. \<open>demo_host\<close> agrees with a browser on
  the strings and numbers that occur in the examples: the texts it parses, the small
  integers it prints and calculates with, and strings without white space at their
  ends.
\<close>

definition default_options :: "int pos_options" where
  "default_options = \<lparr>apiEndpoint = None, taxRate = 0, shippingCost = 0, notifications = True\<rparr>"

definition new_pos :: "'n pos_options \<Rightarrow> 'n pos_state" where
  "new_pos opts = \<lparr>options = opts, cart = [], inventory = Map.empty, products = [],
                    events = [], notices = [], orders = []\<rparr>"

fun digits :: "nat \<Rightarrow> string" where
  "digits n =
     (if n < 10 then [''0123456789'' ! n]
      else digits (n div 10) @ [''0123456789'' ! (n mod 10)])"

declare digits.simps [simp del]

definition show_int :: "int \<Rightarrow> string" where
  "show_int i = (if i < 0 then CHR ''-'' # digits (nat (- i)) else digits (nat i))"

definition demo_host :: "int host" where
  "demo_host =
     \<lparr>parseFloat = (\<lambda>str. if str = ''10.00'' then 10 else if str = ''5.00'' then 5 else 0),
      isNaN = (\<lambda>x. False),
      parseInt = (\<lambda>str. if str = ''5'' then Num 5
                        else if str = ''1'' then Num 1
                        else if str = ''0'' then Num 0
                        else if str = ''999'' then Num 999 else NaN),
      trim = (\<lambda>str. str),
      toText = (\<lambda>v. case v of Number (Num k) \<Rightarrow> show_int k | _ \<Rightarrow> []),
      sanitize = (\<lambda>str. str),
      n_of = (\<lambda>a. case a of Num k \<Rightarrow> k | _ \<Rightarrow> 0),
      n_add = (\<lambda>x y. x + y),
      n_mul = (\<lambda>x y. x * y),
      n_div = (\<lambda>x y. x div y),
      n_round = (\<lambda>x. x)\<rparr>"

definition mug_element :: element where
  "mug_element =
     \<lparr>attrs = [''data-pos-product'' \<mapsto> ''mug-1'', ''data-pos-name'' \<mapsto> ''Mug'',
               ''data-pos-price'' \<mapsto> ''10.00'', ''data-pos-inventory'' \<mapsto> ''5''],
      own_text = ''A sturdy mug'', classList = [],
      add_button = None, quantity_input = None, stock_display = None\<rparr>"

definition shop0 :: "int pos_state" where
  "shop0 = snd (scanProducts demo_host ([mug_element], new_pos default_options))"

text \<open>The page after that scan, with the affordances the scan has added.\<close>

definition shop_page :: "element list" where
  "shop_page = fst (scanProducts demo_host ([mug_element], new_pos default_options))"

text \<open>After \<^verbatim>\<open>addToCart("mug-1", 3)\<close>: three mugs in the cart, two on the ledger.\<close>

definition shop3 :: "int pos_state" where
  "shop3 = snd (addToCart ''mug-1'' (Some (Num 3)) shop0)"

text \<open>After \<^verbatim>\<open>addToCart("mug-1", 0)\<close> on the scanned page: a line item of quantity 0.\<close>

definition shopZ :: "int pos_state" where
  "shopZ = snd (addToCart ''mug-1'' (Some (Num 0)) shop0)"

text \<open>A second product that declares no stock and gets the default \<^verbatim>\<open>999\<close>.\<close>

definition tea_element :: element where
  "tea_element =
     \<lparr>attrs = [''data-pos-product'' \<mapsto> ''tea-1'', ''data-pos-name'' \<mapsto> ''Tea'',
               ''data-pos-price'' \<mapsto> ''5.00''],
      own_text = ''Green tea'', classList = [],
      add_button = None, quantity_input = None, stock_display = None\<rparr>"

text \<open>A product element without a name attribute; its name is its text.\<close>

definition plain_element :: element where
  "plain_element =
     \<lparr>attrs = [''data-pos-product'' \<mapsto> ''mug-1'', ''data-pos-price'' \<mapsto> ''10.00'',
               ''data-pos-inventory'' \<mapsto> ''5''],
      own_text = ''Mug'', classList = [],
      add_button = None, quantity_input = None, stock_display = None\<rparr>"

text \<open>
  A product whose identifier is a property name of \<^verbatim>\<open>Object.prototype\<close>, and the page
  scanned with it.
\<close>

definition odd_element :: element where
  "odd_element =
     \<lparr>attrs = [''data-pos-product'' \<mapsto> ''constructor'', ''data-pos-name'' \<mapsto> ''Kit'',
               ''data-pos-price'' \<mapsto> ''10.00'', ''data-pos-inventory'' \<mapsto> ''5''],
      own_text = ''A construction kit'', classList = [],
      add_button = None, quantity_input = None, stock_display = None\<rparr>"

definition odd_shop :: "int pos_state" where
  "odd_shop = snd (scanProducts demo_host ([odd_element], new_pos default_options))"

text \<open>The mug shop with a ledger entry beyond the safe integers.\<close>

definition big_shop :: "int pos_state" where
  "big_shop = setInventory ''mug-1'' (Num (2 ^ 53 + 2)) shop0"

text \<open>The mug shop with a checkout endpoint configured, three mugs in the cart.\<close>

definition remote_options :: "int pos_options" where
  "remote_options =
     \<lparr>apiEndpoint = Some ''/api/checkout'', taxRate = 0, shippingCost = 0, notifications = True\<rparr>"

definition remote_shop :: "int pos_state" where
  "remote_shop =
     snd (addToCart ''mug-1'' (Some (Num 3))
            (snd (scanProducts demo_host ([mug_element], new_pos remote_options))))"

definition offline_env :: checkout_env where
  "offline_env = \<lparr>now_iso = ''2024-05-01T10:00:00.000Z'', date_now = ''1714557600000'',
                   confirm_answer = True, fetch_result = NetworkError\<rparr>"

definition online_env :: checkout_env where
  "online_env = \<lparr>now_iso = ''2024-05-01T10:01:00.000Z'', date_now = ''1714557660000'',
                  confirm_answer = True, fetch_result = Response True (Some ''{}'')\<rparr>"

text \<open>The submission is acknowledged when the response is ok and its body parses.\<close>

fun acknowledged :: "fetch_outcome \<Rightarrow> bool" where
  "acknowledged (Response ok (Some result)) = ok"
| "acknowledged (Response ok None) = False"
| "acknowledged NetworkError = False"


section \<open>What a scan registers\<close>

text \<open>The element carries a \<^verbatim>\<open>data-pos-name\<close> attribute that is not empty.\<close>

definition name_given :: "element \<Rightarrow> bool" where
  "name_given el =
     (case getAttribute el ''data-pos-name'' of None \<Rightarrow> False | Some name \<Rightarrow> name \<noteq> [])"

text \<open>The identifiers of the product elements of a document, in document order.\<close>

definition product_ids :: "element list \<Rightarrow> string list" where
  "product_ids doc = List.map_filter (\<lambda>el. getAttribute el ''data-pos-product'') doc"

text \<open>
  The effect of one \<^verbatim>\<open>forEach\<close> step of \<^verbatim>\<open>scanProducts\<close> on the engine state, read off a
  fixed document: the product is pushed and its ledger entry initialised when absent.
\<close>

definition register :: "'n host \<Rightarrow> element list \<Rightarrow> nat \<Rightarrow> 'n pos_state \<Rightarrow> 'n pos_state" where
  "register h doc idx s =
     (case parseProductElement h idx (doc ! idx) of
        None \<Rightarrow> s
      | Some product \<Rightarrow> initializeInventory product (s\<lparr>products := products s @ [product]\<rparr>))"


section \<open>Rounding is exact on the safe integers\<close>

lemma bit_length_bound: "bit_length n \<le> k \<longleftrightarrow> n < 2 ^ k"
proof (induction n arbitrary: k rule: bit_length.induct)
  case (1 n)
  show ?case
  proof (cases "n = 0")
    case True
    then show ?thesis by (simp add: bit_length.simps)
  next
    case False
    show ?thesis
    proof (cases k)
      case 0
      with False show ?thesis by (simp add: bit_length.simps)
    next
      case (Suc j)
      have "bit_length n \<le> Suc j \<longleftrightarrow> bit_length (n div 2) \<le> j"
        using False by (simp add: bit_length.simps [of n])
      also have "\<dots> \<longleftrightarrow> n div 2 < 2 ^ j" using 1 [OF False] .
      also have "\<dots> \<longleftrightarrow> n < 2 ^ Suc j" by auto
      finally show ?thesis using Suc by simp
    qed
  qed
qed

lemma to_double_exact:
  assumes "safe_integer x"
  shows "to_double x = Num x"
proof -
  define a where "a = nat \<bar>x\<bar>"
  have small: "a < 2 ^ 53"
    using assms by (simp add: a_def safe_integer_def MAX_SAFE_INTEGER_def)
  then have "bit_length a \<le> 53"
    by (simp only: bit_length_bound)
  then have e: "bit_length a - 53 = 0" by simp
  have "int a < 2 ^ 53" using small by simp
  also have "\<dots> < (2 ^ 1024 :: int)" by simp
  finally have fin: "\<not> (2 ^ 1024 :: int) \<le> int a" by simp
  have "to_double x = Num (if x < 0 then - int a else int a)"
    unfolding to_double_def a_def [symmetric] Let_def e using fin by simp
  also have "(if x < 0 then - int a else int a) = x"
    by (simp add: a_def)
  finally show ?thesis .
qed

lemma num_add_safe:
  "safe_integer (a + b) \<Longrightarrow> num_add (Num a) (Num b) = Num (a + b)"
  by (simp add: to_double_exact)

lemma num_sub_safe:
  "safe_integer (a - b) \<Longrightarrow> num_sub (Num a) (Num b) = Num (a - b)"
  by (simp add: num_sub_def to_double_exact)

lemma bit_length_54: "bit_length 9007199254740993 = 54"
proof -
  have "bit_length 9007199254740993 \<le> 54"
    by (simp only: bit_length_bound) simp
  moreover have "\<not> bit_length 9007199254740993 \<le> 53"
    by (simp only: bit_length_bound) simp
  ultimately show ?thesis by simp
qed

lemma to_double_tie: "to_double (2 ^ 53 + 1) = Num (2 ^ 53)"
proof -
  have a: "nat \<bar>2 ^ 53 + 1 :: int\<bar> = 9007199254740993" by simp
  show ?thesis
    unfolding to_double_def a Let_def bit_length_54 by simp
qed


section \<open>The scanner leaves attributes alone\<close>

lemma update_keeps_attrs:
  assumes "attrs e = attrs (doc ! i)"
  shows "map attrs (doc[i := e]) = map attrs doc"
proof (cases "i < length doc")
  case True
  with assms show ?thesis by (simp add: map_update list_update_same_conv)
next
  case False
  then have "length doc \<le> i" by simp
  then show ?thesis by (simp add: list_update_beyond)
qed

lemma updateStockDisplay_attrs:
  "map attrs (updateStockDisplay h productId (doc, s)) = map attrs doc"
  by (simp add: updateStockDisplay_def Let_def update_keeps_attrs split: option.splits)

lemma updateAddButton_attrs:
  "map attrs (updateAddButton h productId (doc, s)) = map attrs doc"
  by (simp add: updateAddButton_def Let_def update_keeps_attrs split: option.splits)

lemma enhanceProductElement_attrs:
  "map attrs (enhanceProductElement h idx product (doc, s)) = map attrs doc"
  by (simp add: enhanceProductElement_def Let_def updateStockDisplay_attrs
        updateAddButton_attrs update_keeps_attrs)

lemma scan_element_attrs:
  "map attrs (fst (scan_element h idx (doc, s))) = map attrs doc"
  by (simp add: scan_element_def Let_def enhanceProductElement_attrs split: option.splits)

lemma scan_element_state:
  "snd (scan_element h idx (doc, s)) = register h doc idx s"
  by (simp add: scan_element_def register_def Let_def split: option.splits)

lemma same_attrs_nth:
  "map attrs doc' = map attrs doc \<Longrightarrow> i < length doc \<Longrightarrow> attrs (doc' ! i) = attrs (doc ! i)"
  by (metis length_map nth_map)

lemma parse_attrs_only:
  "attrs e' = attrs e \<Longrightarrow> name_given e \<Longrightarrow>
     parseProductElement h idx e' = parseProductElement h idx e"
  by (auto simp: parseProductElement_def name_given_def getAttribute_def Let_def
           split: option.splits)

lemma register_same_attrs:
  assumes "map attrs doc' = map attrs doc" and "i < length doc" and "name_given (doc ! i)"
  shows "register h doc' i s = register h doc i s"
proof -
  have "attrs (doc' ! i) = attrs (doc ! i)"
    using assms(1,2) by (rule same_attrs_nth)
  then have "parseProductElement h i (doc' ! i) = parseProductElement h i (doc ! i)"
    using assms(3) by (rule parse_attrs_only)
  then show ?thesis by (simp add: register_def)
qed

lemma scan_fold:
  assumes "map attrs doc' = map attrs doc"
    and "\<forall>i \<in> set idxs. i < length doc \<and> name_given (doc ! i)"
  shows "map attrs (fst (fold (scan_element h) idxs (doc', s))) = map attrs doc
       \<and> snd (fold (scan_element h) idxs (doc', s)) = fold (register h doc) idxs s"
  using assms
proof (induction idxs arbitrary: doc' s)
  case Nil
  then show ?case by simp
next
  case (Cons i idxs)
  obtain doc1 s1 where step: "scan_element h i (doc', s) = (doc1, s1)"
    by (cases "scan_element h i (doc', s)")
  have attrs1: "map attrs doc1 = map attrs doc"
    using scan_element_attrs [of h i doc' s] step Cons.prems(1) by simp
  have "s1 = register h doc' i s"
    using scan_element_state [of h i doc' s] step by simp
  also have "\<dots> = register h doc i s"
    using Cons.prems by (intro register_same_attrs) simp_all
  finally have s1: "s1 = register h doc i s" .
  from Cons.IH [OF attrs1, of s1] Cons.prems(2) step s1 show ?case
    by simp
qed


section \<open>What a scan does to the engine state\<close>

lemma register_untouched:
  "cart (register h doc i s) = cart s"
  "options (register h doc i s) = options s"
  "events (register h doc i s) = events s"
  by (simp_all add: register_def initializeInventory_def split: option.splits)

lemma register_keeps_entry:
  "inventory s p = Some v \<Longrightarrow> inventory (register h doc i s) p = Some v"
  by (auto simp: register_def initializeInventory_def has_key_def assign_def
           split: option.splits)

lemma register_keeps_key:
  "has_key p (inventory s) \<Longrightarrow> has_key p (inventory (register h doc i s))"
  by (auto simp: register_def initializeInventory_def has_key_def assign_def
           split: option.splits)

lemma proto_inherited: "''__proto__'' \<in> set prototype_names"
  by (simp add: prototype_names_def)

lemma register_enters:
  "parseProductElement h i (doc ! i) = Some product \<Longrightarrow>
     has_key (p_id product) (inventory (register h doc i s))"
  using proto_inherited
  by (auto simp: register_def initializeInventory_def has_key_def assign_def)

lemma register_idle:
  "\<forall>product. parseProductElement h i (doc ! i) = Some product
       \<longrightarrow> has_key (p_id product) (inventory s) \<Longrightarrow>
     inventory (register h doc i s) = inventory s"
  by (auto simp: register_def initializeInventory_def split: option.splits)

lemma fold_register_untouched:
  "cart (fold (register h doc) idxs s) = cart s
   \<and> options (fold (register h doc) idxs s) = options s
   \<and> events (fold (register h doc) idxs s) = events s"
  by (induction idxs arbitrary: s) (simp_all add: register_untouched)

lemma register_products:
  "products (register h doc i s) =
     products s @ (case parseProductElement h i (doc ! i) of None \<Rightarrow> [] | Some product \<Rightarrow> [product])"
  by (simp add: register_def initializeInventory_def split: option.splits)

lemma fold_register_products:
  "products (fold (register h doc) idxs s) =
     products s @ List.map_filter (\<lambda>i. parseProductElement h i (doc ! i)) idxs"
proof (induction idxs arbitrary: s)
  case Nil
  then show ?case by (simp add: map_filter_simps)
next
  case (Cons i idxs)
  show ?case
    by (cases "parseProductElement h i (doc ! i)")
       (simp_all add: Cons.IH map_filter_simps register_products)
qed

lemma fold_register_keeps_entry:
  "inventory s p = Some v \<Longrightarrow> inventory (fold (register h doc) idxs s) p = Some v"
  by (induction idxs arbitrary: s) (simp_all add: register_keeps_entry)

lemma fold_register_keeps_key:
  "has_key p (inventory s) \<Longrightarrow> has_key p (inventory (fold (register h doc) idxs s))"
  by (induction idxs arbitrary: s) (simp_all add: register_keeps_key)

lemma fold_register_enters:
  "i \<in> set idxs \<Longrightarrow> parseProductElement h i (doc ! i) = Some product \<Longrightarrow>
     has_key (p_id product) (inventory (fold (register h doc) idxs s))"
proof (induction idxs arbitrary: s)
  case Nil
  then show ?case by simp
next
  case (Cons j idxs)
  show ?case
  proof (cases "i = j")
    case True
    with Cons.prems(2) have "has_key (p_id product) (inventory (register h doc j s))"
      by (simp add: register_enters)
    then have "has_key (p_id product)
                 (inventory (fold (register h doc) idxs (register h doc j s)))"
      by (rule fold_register_keeps_key)
    then show ?thesis by simp
  next
    case False
    with Cons.prems(1) have "i \<in> set idxs" by simp
    from Cons.IH [OF this Cons.prems(2)] show ?thesis by simp
  qed
qed

lemma fold_register_idle:
  "\<forall>i \<in> set idxs. \<forall>product. parseProductElement h i (doc ! i) = Some product
       \<longrightarrow> has_key (p_id product) (inventory s) \<Longrightarrow>
     inventory (fold (register h doc) idxs s) = inventory s"
proof (induction idxs arbitrary: s)
  case Nil
  then show ?case by simp
next
  case (Cons j idxs)
  have same: "inventory (register h doc j s) = inventory s"
    using Cons.prems by (intro register_idle) simp
  have "inventory (fold (register h doc) idxs (register h doc j s)) = inventory (register h doc j s)"
    using Cons.prems by (intro Cons.IH) (simp add: same)
  with same show ?case by simp
qed

lemma scan_loop_keeps_entry:
  "inventory s p = Some v \<Longrightarrow>
     inventory (snd (fold (scan_element h) idxs (doc, s))) p = Some v"
proof (induction idxs arbitrary: doc s)
  case Nil
  then show ?case by simp
next
  case (Cons i idxs)
  obtain doc1 s1 where step: "scan_element h i (doc, s) = (doc1, s1)"
    by (cases "scan_element h i (doc, s)")
  then have "s1 = register h doc i s"
    using scan_element_state [of h i doc s] by simp
  with Cons.prems have "inventory s1 p = Some v"
    by (simp add: register_keeps_entry)
  from Cons.IH [OF this, of doc1] step show ?case by simp
qed

lemma scan_loop_general:
  "map attrs (fst (fold (scan_element h) idxs (doc, s))) = map attrs doc
   \<and> cart (snd (fold (scan_element h) idxs (doc, s))) = cart s
   \<and> options (snd (fold (scan_element h) idxs (doc, s))) = options s"
proof (induction idxs arbitrary: doc s)
  case Nil
  then show ?case by simp
next
  case (Cons i idxs)
  obtain doc1 s1 where step: "scan_element h i (doc, s) = (doc1, s1)"
    by (cases "scan_element h i (doc, s)")
  have attrs1: "map attrs doc1 = map attrs doc"
    using scan_element_attrs [of h i doc s] step by simp
  have "s1 = register h doc i s"
    using scan_element_state [of h i doc s] step by simp
  then have "cart s1 = cart s" and "options s1 = options s"
    by (simp_all add: register_untouched)
  with Cons.IH [of doc1 s1] attrs1 step show ?case by simp
qed

lemma scanProducts_unfold:
  "scanProducts h (doc, s) =
     (fst (fold (scan_element h) (productElements doc) (doc, s\<lparr>products := []\<rparr>)),
      emit (ProductsScanned
              (products (snd (fold (scan_element h) (productElements doc)
                               (doc, s\<lparr>products := []\<rparr>)))))
        (snd (fold (scan_element h) (productElements doc) (doc, s\<lparr>products := []\<rparr>))))"
  by (simp add: scanProducts_def case_prod_unfold)

lemma scanProducts_keeps_entry:
  assumes "inventory s p = Some v"
  shows "inventory (snd (scanProducts h (doc, s))) p = Some v"
proof -
  from assms have "inventory (s\<lparr>products := []\<rparr>) p = Some v" by simp
  then have "inventory (snd (fold (scan_element h) (productElements doc)
                (doc, s\<lparr>products := []\<rparr>))) p = Some v"
    by (rule scan_loop_keeps_entry)
  then show ?thesis
    by (simp add: scanProducts_unfold emit_def)
qed

lemma productElements_same_attrs:
  assumes "map attrs doc' = map attrs doc"
  shows "productElements doc' = productElements doc"
proof -
  have len: "length doc' = length doc"
    using assms by (metis length_map)
  have "filter (\<lambda>i. attrs (doc' ! i) ''data-pos-product'' \<noteq> None) [0..<length doc]
      = filter (\<lambda>i. attrs (doc ! i) ''data-pos-product'' \<noteq> None) [0..<length doc]"
  proof (rule filter_cong [OF refl])
    fix i
    assume "i \<in> set [0..<length doc]"
    then have "i < length doc" by simp
    with assms have "attrs (doc' ! i) = attrs (doc ! i)" by (rule same_attrs_nth)
    then show "(attrs (doc' ! i) ''data-pos-product'' \<noteq> None)
             = (attrs (doc ! i) ''data-pos-product'' \<noteq> None)" by simp
  qed
  with len show ?thesis by (simp add: productElements_def)
qed

lemma productElements_named:
  assumes "\<forall>el \<in> set doc. getAttribute el ''data-pos-product'' \<noteq> None \<longrightarrow> name_given el"
  shows "\<forall>i \<in> set (productElements doc). i < length doc \<and> name_given (doc ! i)"
proof
  fix i
  assume "i \<in> set (productElements doc)"
  then have i: "i < length doc" and marked: "attrs (doc ! i) ''data-pos-product'' \<noteq> None"
    by (simp_all add: productElements_def)
  from i have "doc ! i \<in> set doc" by (rule nth_mem)
  with assms marked have "name_given (doc ! i)" by (simp add: getAttribute_def)
  with i show "i < length doc \<and> name_given (doc ! i)" by simp
qed

lemma scanProducts_named:
  assumes "map attrs doc' = map attrs doc"
    and "\<forall>el \<in> set doc. getAttribute el ''data-pos-product'' \<noteq> None \<longrightarrow> name_given el"
  shows "map attrs (fst (scanProducts h (doc', s))) = map attrs doc"
    and "snd (scanProducts h (doc', s)) =
           emit (ProductsScanned
                   (List.map_filter (\<lambda>i. parseProductElement h i (doc ! i)) (productElements doc)))
             (fold (register h doc) (productElements doc) (s\<lparr>products := []\<rparr>))"
proof -
  have idxs: "productElements doc' = productElements doc"
    using assms(1) by (rule productElements_same_attrs)
  from scan_fold [OF assms(1) productElements_named [OF assms(2)], of h "s\<lparr>products := []\<rparr>"]
  have loop: "map attrs (fst (fold (scan_element h) (productElements doc)
                 (doc', s\<lparr>products := []\<rparr>))) = map attrs doc"
    "snd (fold (scan_element h) (productElements doc) (doc', s\<lparr>products := []\<rparr>))
       = fold (register h doc) (productElements doc) (s\<lparr>products := []\<rparr>)"
    by simp_all
  show "map attrs (fst (scanProducts h (doc', s))) = map attrs doc"
    using loop(1) by (simp add: scanProducts_unfold idxs)
  show "snd (scanProducts h (doc', s)) =
           emit (ProductsScanned
                   (List.map_filter (\<lambda>i. parseProductElement h i (doc ! i)) (productElements doc)))
             (fold (register h doc) (productElements doc) (s\<lparr>products := []\<rparr>))"
    using loop(2) by (simp add: scanProducts_unfold idxs fold_register_products)
qed

lemma scanProducts_general:
  "map attrs (fst (scanProducts h (doc, s))) = map attrs doc"
  "cart (snd (scanProducts h (doc, s))) = cart s"
  "options (snd (scanProducts h (doc, s))) = options s"
  using scan_loop_general [of h "productElements doc" doc "s\<lparr>products := []\<rparr>"]
  by (simp_all add: scanProducts_unfold emit_def)

lemma scanProducts_named_state:
  assumes "\<forall>el \<in> set doc. getAttribute el ''data-pos-product'' \<noteq> None \<longrightarrow> name_given el"
  shows "products (snd (scanProducts h (doc, s))) =
           List.map_filter (\<lambda>i. parseProductElement h i (doc ! i)) (productElements doc)"
    and "inventory (snd (scanProducts h (doc, s))) =
           inventory (fold (register h doc) (productElements doc) (s\<lparr>products := []\<rparr>))"
  using scanProducts_named(2) [OF refl assms, of h s]
  by (simp_all add: emit_def fold_register_products)

lemma parse_id:
  "parseProductElement h i el = Some product \<Longrightarrow>
     getAttribute el ''data-pos-product'' = Some (p_id product)"
  by (auto simp: parseProductElement_def Let_def split: option.splits if_splits)

lemma parsed_ids:
  "map p_id (List.map_filter (\<lambda>i. parseProductElement h i (doc ! i)) idxs) =
     map (\<lambda>i. the (getAttribute (doc ! i) ''data-pos-product''))
       (filter (\<lambda>i. parseProductElement h i (doc ! i) \<noteq> None) idxs)"
proof (induction idxs)
  case Nil
  then show ?case by (simp add: map_filter_simps)
next
  case (Cons i idxs)
  show ?case
  proof (cases "parseProductElement h i (doc ! i)")
    case None
    with Cons.IH show ?thesis by (simp add: map_filter_simps)
  next
    case (Some product)
    from parse_id [OF Some] Some Cons.IH show ?thesis by (simp add: map_filter_simps)
  qed
qed

lemma product_ids_by_position:
  "map (\<lambda>i. the (getAttribute (doc ! i) ''data-pos-product'')) (productElements doc)
     = product_ids doc"
proof -
  let ?g = "\<lambda>el. getAttribute el ''data-pos-product''"
  have "filter (\<lambda>el. ?g el \<noteq> None) doc
      = filter (\<lambda>el. ?g el \<noteq> None) (map ((!) doc) [0..<length doc])"
    by (simp add: map_nth)
  also have "\<dots> = map ((!) doc) (filter (\<lambda>i. ?g (doc ! i) \<noteq> None) [0..<length doc])"
    by (simp add: filter_map comp_def)
  finally have "map (the \<circ> ?g) (filter (\<lambda>el. ?g el \<noteq> None) doc)
      = map (\<lambda>i. the (?g (doc ! i))) (filter (\<lambda>i. ?g (doc ! i) \<noteq> None) [0..<length doc])"
    by (simp add: comp_def)
  then show ?thesis
    by (simp add: product_ids_def productElements_def List.map_filter_def getAttribute_def)
qed

lemma scanned_ids_distinct:
  assumes "distinct (product_ids doc)"
  shows "distinct (map p_id (List.map_filter (\<lambda>i. parseProductElement h i (doc ! i))
                              (productElements doc)))"
proof -
  have "distinct (map (\<lambda>i. the (getAttribute (doc ! i) ''data-pos-product''))
                    (productElements doc))"
    using assms by (simp add: product_ids_by_position)
  then have "distinct (map (\<lambda>i. the (getAttribute (doc ! i) ''data-pos-product''))
                (filter (\<lambda>i. parseProductElement h i (doc ! i) \<noteq> None) (productElements doc)))"
    by (rule distinct_map_filter)
  then show ?thesis by (simp only: parsed_ids)
qed



lemma parse_id_attrs_only:
  "attrs e' = attrs e \<Longrightarrow>
     map_option p_id (parseProductElement h idx e') = map_option p_id (parseProductElement h idx e)"
  by (simp add: parseProductElement_def getAttribute_def Let_def split: option.splits)

lemma scan_fold_ids:
  assumes "map attrs doc' = map attrs doc" and "\<forall>i \<in> set idxs. i < length doc"
  shows "map p_id (products (snd (fold (scan_element h) idxs (doc', s)))) =
           map p_id (products s)
           @ List.map_filter (\<lambda>i. map_option p_id (parseProductElement h i (doc ! i))) idxs"
  using assms
proof (induction idxs arbitrary: doc' s)
  case Nil
  then show ?case by (simp add: map_filter_simps)
next
  case (Cons i idxs)
  obtain doc1 s1 where step: "scan_element h i (doc', s) = (doc1, s1)"
    by (cases "scan_element h i (doc', s)")
  have attrs1: "map attrs doc1 = map attrs doc"
    using scan_element_attrs [of h i doc' s] step Cons.prems(1) by simp
  have s1: "s1 = register h doc' i s"
    using scan_element_state [of h i doc' s] step by simp
  have "attrs (doc' ! i) = attrs (doc ! i)"
    using Cons.prems by (intro same_attrs_nth) simp_all
  then have same: "map_option p_id (parseProductElement h i (doc' ! i))
                 = map_option p_id (parseProductElement h i (doc ! i))"
    by (rule parse_id_attrs_only)
  have ids1: "map p_id (products s1) =
                map p_id (products s)
                @ (case map_option p_id (parseProductElement h i (doc ! i)) of
                     None \<Rightarrow> [] | Some k \<Rightarrow> [k])"
    unfolding same [symmetric]
    by (cases "parseProductElement h i (doc' ! i)") (simp_all add: s1 register_products)
  have rest: "map p_id (products (snd (fold (scan_element h) idxs (doc1, s1)))) =
           map p_id (products s1)
           @ List.map_filter (\<lambda>i. map_option p_id (parseProductElement h i (doc ! i))) idxs"
    using attrs1 Cons.prems(2) by (intro Cons.IH) simp_all
  show ?case
    by (cases "parseProductElement h i (doc ! i)")
       (simp_all add: step rest ids1 map_filter_simps)
qed

lemma map_filter_ids:
  "List.map_filter (\<lambda>i. map_option p_id (parseProductElement h i (doc ! i))) idxs =
     map p_id (List.map_filter (\<lambda>i. parseProductElement h i (doc ! i)) idxs)"
proof (induction idxs)
  case Nil
  then show ?case by (simp add: map_filter_simps)
next
  case (Cons i idxs)
  then show ?case
    by (cases "parseProductElement h i (doc ! i)") (simp_all add: map_filter_simps)
qed

lemma scanProducts_ids:
  "map p_id (products (snd (scanProducts h (doc, s)))) =
     map p_id (List.map_filter (\<lambda>i. parseProductElement h i (doc ! i)) (productElements doc))"
proof -
  have "\<forall>i \<in> set (productElements doc). i < length doc"
    by (simp add: productElements_def)
  from scan_fold_ids [OF refl this, of h "s\<lparr>products := []\<rparr>"]
  show ?thesis by (simp add: scanProducts_unfold emit_def map_filter_ids)
qed


lemma scan_fold_keeps_key:
  "has_key p (inventory s) \<Longrightarrow>
     has_key p (inventory (snd (fold (scan_element h) idxs (doc, s))))"
proof (induction idxs arbitrary: doc s)
  case Nil
  then show ?case by simp
next
  case (Cons i idxs)
  obtain doc1 s1 where step: "scan_element h i (doc, s) = (doc1, s1)"
    by (cases "scan_element h i (doc, s)")
  then have "s1 = register h doc i s"
    using scan_element_state [of h i doc s] by simp
  with Cons.prems have "has_key p (inventory s1)"
    by (simp add: register_keeps_key)
  from Cons.IH [OF this, of doc1] step show ?case by simp
qed

lemma parse_same_id:
  assumes "attrs e' = attrs e" and "parseProductElement h i e' = Some product'"
  obtains product where "parseProductElement h i e = Some product" and "p_id product = p_id product'"
proof -
  from parse_id_attrs_only [OF assms(1), of h i] assms(2)
  have "map_option p_id (parseProductElement h i e) = Some (p_id product')" by simp
  then show thesis by (auto intro: that)
qed

lemma scan_fold_enters:
  assumes "map attrs doc' = map attrs doc" and "\<forall>i \<in> set idxs. i < length doc"
    and "i \<in> set idxs" and "parseProductElement h i (doc ! i) = Some product"
  shows "has_key (p_id product) (inventory (snd (fold (scan_element h) idxs (doc', s))))"
  using assms(1-3)
proof (induction idxs arbitrary: doc' s)
  case Nil
  then show ?case by simp
next
  case (Cons j idxs)
  obtain doc1 s1 where step: "scan_element h j (doc', s) = (doc1, s1)"
    by (cases "scan_element h j (doc', s)")
  have attrs1: "map attrs doc1 = map attrs doc"
    using scan_element_attrs [of h j doc' s] step Cons.prems(1) by simp
  have s1: "s1 = register h doc' j s"
    using scan_element_state [of h j doc' s] step by simp
  have inside: "\<forall>i \<in> set idxs. i < length doc"
    using Cons.prems(2) by simp
  show ?case
  proof (cases "i = j")
    case True
    have "attrs (doc ! i) = attrs (doc' ! i)"
      using Cons.prems(1,2) True by (intro same_attrs_nth [symmetric]) simp_all
    from parse_same_id [OF this assms(4)]
    obtain product' where "parseProductElement h i (doc' ! i) = Some product'"
      and "p_id product' = p_id product" by metis
    then have "has_key (p_id product) (inventory s1)"
      using register_enters [of h i doc' product' s] True by (simp add: s1)
    then have "has_key (p_id product) (inventory (snd (fold (scan_element h) idxs (doc1, s1))))"
      by (rule scan_fold_keeps_key)
    then show ?thesis by (simp add: step)
  next
    case False
    with Cons.prems(3) have "i \<in> set idxs" by simp
    from Cons.IH [OF attrs1 inside this, of s1] show ?thesis by (simp add: step)
  qed
qed

lemma scan_fold_idle:
  assumes "map attrs doc' = map attrs doc" and "\<forall>i \<in> set idxs. i < length doc"
    and "\<forall>i \<in> set idxs. \<forall>product. parseProductElement h i (doc ! i) = Some product
           \<longrightarrow> has_key (p_id product) (inventory s)"
  shows "inventory (snd (fold (scan_element h) idxs (doc', s))) = inventory s"
  using assms
proof (induction idxs arbitrary: doc' s)
  case Nil
  then show ?case by simp
next
  case (Cons j idxs)
  obtain doc1 s1 where step: "scan_element h j (doc', s) = (doc1, s1)"
    by (cases "scan_element h j (doc', s)")
  have attrs1: "map attrs doc1 = map attrs doc"
    using scan_element_attrs [of h j doc' s] step Cons.prems(1) by simp
  have s1: "s1 = register h doc' j s"
    using scan_element_state [of h j doc' s] step by simp
  have same: "attrs (doc' ! j) = attrs (doc ! j)"
    using Cons.prems(1,2) by (intro same_attrs_nth) simp_all
  have "\<forall>product'. parseProductElement h j (doc' ! j) = Some product'
          \<longrightarrow> has_key (p_id product') (inventory s)"
  proof (intro allI impI)
    fix product'
    assume "parseProductElement h j (doc' ! j) = Some product'"
    from parse_same_id [OF same this]
    obtain product where "parseProductElement h j (doc ! j) = Some product"
      and "p_id product = p_id product'" by metis
    with Cons.prems(3) show "has_key (p_id product') (inventory s)" by auto
  qed
  then have idle: "inventory s1 = inventory s"
    unfolding s1 by (rule register_idle)
  have inside: "\<forall>i \<in> set idxs. i < length doc"
    using Cons.prems(2) by simp
  have known: "\<forall>i \<in> set idxs. \<forall>product. parseProductElement h i (doc ! i) = Some product
           \<longrightarrow> has_key (p_id product) (inventory s1)"
    using Cons.prems(3) by (simp add: idle)
  from Cons.IH [OF attrs1 inside known] idle show ?case by (simp add: step)
qed

lemma scanProducts_inventory:
  "inventory (snd (scanProducts h (doc, s))) =
     inventory (snd (fold (scan_element h) (productElements doc) (doc, s\<lparr>products := []\<rparr>)))"
  by (simp add: scanProducts_unfold emit_def)

lemma productElements_inside: "\<forall>i \<in> set (productElements doc). i < length doc"
  by (simp add: productElements_def)

lemma scanProducts_second_inventory:
  "inventory (snd (scanProducts h (scanProducts h (doc, s))))
     = inventory (snd (scanProducts h (doc, s)))"
proof -
  let ?idxs = "productElements doc"
  obtain doc1 s1 where first: "scanProducts h (doc, s) = (doc1, s1)"
    by (cases "scanProducts h (doc, s)")
  have attrs1: "map attrs doc1 = map attrs doc"
    using scanProducts_general(1) [of h doc s] first by simp
  then have idxs1: "productElements doc1 = ?idxs"
    by (rule productElements_same_attrs)
  have inv1: "inventory s1 =
                inventory (snd (fold (scan_element h) ?idxs (doc, s\<lparr>products := []\<rparr>)))"
    using scanProducts_inventory [of h doc s] first by simp
  have known: "\<forall>i \<in> set ?idxs. \<forall>product. parseProductElement h i (doc ! i) = Some product
           \<longrightarrow> has_key (p_id product) (inventory (s1\<lparr>products := []\<rparr>))"
  proof (intro ballI allI impI)
    fix i product
    assume "i \<in> set ?idxs" and "parseProductElement h i (doc ! i) = Some product"
    from scan_fold_enters [OF refl productElements_inside this, of "s\<lparr>products := []\<rparr>"]
    show "has_key (p_id product) (inventory (s1\<lparr>products := []\<rparr>))"
      by (simp add: inv1)
  qed
  from scan_fold_idle [OF attrs1 productElements_inside known]
  have "inventory (snd (fold (scan_element h) ?idxs (doc1, s1\<lparr>products := []\<rparr>))) = inventory s1"
    by simp
  then show ?thesis
    by (simp add: first scanProducts_inventory idxs1)
qed

lemma scanProducts_second_ids:
  "map p_id (products (snd (scanProducts h (scanProducts h (doc, s)))))
     = map p_id (products (snd (scanProducts h (doc, s))))"
proof -
  let ?idxs = "productElements doc"
  obtain doc1 s1 where first: "scanProducts h (doc, s) = (doc1, s1)"
    by (cases "scanProducts h (doc, s)")
  have attrs1: "map attrs doc1 = map attrs doc"
    using scanProducts_general(1) [of h doc s] first by simp
  then have idxs1: "productElements doc1 = ?idxs"
    by (rule productElements_same_attrs)
  from scan_fold_ids [OF attrs1 productElements_inside, of h "s1\<lparr>products := []\<rparr>"]
  have "map p_id (products (snd (scanProducts h (doc1, s1)))) =
          map p_id (List.map_filter (\<lambda>i. parseProductElement h i (doc ! i)) ?idxs)"
    by (simp add: scanProducts_unfold emit_def idxs1 map_filter_ids)
  then show ?thesis
    by (simp add: first [symmetric] scanProducts_ids)
qed

lemma scanProducts_second_products:
  assumes "\<forall>el \<in> set doc. getAttribute el ''data-pos-product'' \<noteq> None \<longrightarrow> name_given el"
  shows "products (snd (scanProducts h (scanProducts h (doc, s))))
           = products (snd (scanProducts h (doc, s)))"
proof -
  let ?parsed = "List.map_filter (\<lambda>i. parseProductElement h i (doc ! i)) (productElements doc)"
  obtain doc1 s1 where first: "scanProducts h (doc, s) = (doc1, s1)"
    by (cases "scanProducts h (doc, s)")
  have attrs1: "map attrs doc1 = map attrs doc"
    using scanProducts_general(1) [of h doc s] first by simp
  have "snd (scanProducts h (doc1, s1)) =
          emit (ProductsScanned ?parsed)
            (fold (register h doc) (productElements doc) (s1\<lparr>products := []\<rparr>))"
    using attrs1 assms by (rule scanProducts_named(2))
  then have "products (snd (scanProducts h (doc1, s1))) = ?parsed"
    by (simp add: emit_def fold_register_products)
  then show ?thesis
    by (simp add: first [symmetric] scanProducts_named_state(1) [OF assms])
qed

section \<open>Facts about the example shops\<close>

lemmas js_eval =
  lookup_def has_key_def assign_def prototype_names_def num_truthy_def truthy_def
  to_double_exact num_add_safe num_sub_safe safe_integer_def MAX_SAFE_INTEGER_def

lemma shop0_fields:
  "cart shop0 = []"
  "inventory shop0 = [''mug-1'' \<mapsto> Number (Num 5)]"
  "products shop0 = [\<lparr>p_id = ''mug-1'', p_name = ''Mug'', p_price = 10, p_inventory = Num 5,
      p_category = ''general'', p_description = [], p_image = [], p_sku = ''mug-1'',
      p_element = 0\<rparr>]"
  "options shop0 = default_options"
  by (simp_all add: shop0_def scanProducts_def productElements_def mug_element_def
        scan_element_def parseProductElement_def getAttribute_def demo_host_def new_pos_def
        initializeInventory_def emit_def Let_def js_eval)

lemma shop3_fields:
  "cart shop3 = [\<lparr>i_id = ''mug-1'', i_name = ''Mug'', i_price = 10, i_quantity = Num 3,
      i_sku = ''mug-1'', i_image = []\<rparr>]"
  "inventory shop3 = [''mug-1'' \<mapsto> Number (Num 2)]"
  "products shop3 = products shop0"
  "options shop3 = default_options"
  by (simp_all add: shop3_def addToCart_def shop0_fields showNotification_def emit_def Let_def
        js_eval)

lemma shopZ_fields:
  "cart shopZ = [\<lparr>i_id = ''mug-1'', i_name = ''Mug'', i_price = 10, i_quantity = Num 0,
      i_sku = ''mug-1'', i_image = []\<rparr>]"
  "inventory shopZ = [''mug-1'' \<mapsto> Number (Num 5)]"
  "products shopZ = products shop0"
  "options shopZ = default_options"
  by (simp_all add: shopZ_def addToCart_def shop0_fields showNotification_def emit_def Let_def
        js_eval)

lemma odd_shop_fields:
  "cart odd_shop = []"
  "inventory odd_shop = Map.empty"
  "products odd_shop = [\<lparr>p_id = ''constructor'', p_name = ''Kit'', p_price = 10,
      p_inventory = Num 5, p_category = ''general'', p_description = [], p_image = [],
      p_sku = ''constructor'', p_element = 0\<rparr>]"
  "options odd_shop = default_options"
  by (simp_all add: odd_shop_def scanProducts_def productElements_def odd_element_def
        scan_element_def parseProductElement_def getAttribute_def demo_host_def new_pos_def
        initializeInventory_def emit_def Let_def js_eval)

lemma big_shop_fields:
  "cart big_shop = []"
  "inventory big_shop = [''mug-1'' \<mapsto> Number (Num (2 ^ 53 + 2))]"
  "products big_shop = products shop0"
  "options big_shop = default_options"
  by (simp_all add: big_shop_def setInventory_def shop0_fields assign_def)

lemma remote_shop_fields:
  "cart remote_shop = [\<lparr>i_id = ''mug-1'', i_name = ''Mug'', i_price = 10, i_quantity = Num 3,
      i_sku = ''mug-1'', i_image = []\<rparr>]"
  "inventory remote_shop = [''mug-1'' \<mapsto> Number (Num 2)]"
  "options remote_shop = remote_options"
  "orders remote_shop = []"
  by (simp_all add: remote_shop_def addToCart_def scanProducts_def productElements_def
        mug_element_def scan_element_def parseProductElement_def getAttribute_def demo_host_def
        new_pos_def initializeInventory_def showNotification_def emit_def Let_def js_eval)

lemma shop_page_fields:
  "shop_page =
     [mug_element\<lparr>classList := [''pos-product''],
        add_button := Some \<lparr>b_text = ''Add to Cart'', b_disabled = False\<rparr>,
        quantity_input := Some \<lparr>in_value = ''1'', in_min = ''1'', in_max = ''5''\<rparr>,
        stock_display := Some \<lparr>sp_text = ''Stock: 5'', sp_class = ''pos-stock ''\<rparr>\<rparr>]"
  by (simp add: shop_page_def scanProducts_def productElements_def mug_element_def
        scan_element_def parseProductElement_def getAttribute_def textContent_def
        demo_host_def new_pos_def default_options_def initializeInventory_def
        emit_def Let_def enhanceProductElement_def updateStockDisplay_def
        updateAddButton_def or_one_def show_int_def digits.simps js_eval)


section \<open>List lemmas for the cart\<close>

lemma findIndex_append_new:
  "find P xs = None \<Longrightarrow> P x \<Longrightarrow> findIndex P (xs @ [x]) = Some (length xs)"
  by (induction xs) (auto split: if_splits)

lemma find_mutate_found:
  "find P xs = Some y \<Longrightarrow> (\<And>x. P (f x) = P x) \<Longrightarrow>
     \<exists>i. findIndex P (mutate_found P f xs) = Some i \<and> i < length xs \<and> xs ! i = y
         \<and> mutate_found P f xs = xs[i := f y]"
proof (induction xs)
  case Nil
  then show ?case by simp
next
  case (Cons a xs)
  show ?case
  proof (cases "P a")
    case True
    with Cons.prems show ?thesis by simp
  next
    case False
    with Cons.prems have "find P xs = Some y" by simp
    from Cons.IH [OF this Cons.prems(2)] obtain i where
      "findIndex P (mutate_found P f xs) = Some i" "i < length xs" "xs ! i = y"
      "mutate_found P f xs = xs[i := f y]" by blast
    with False show ?thesis by simp
  qed
qed


section \<open>The branches of addToCart\<close>

lemma addToCart_unknown:
  "find (\<lambda>pr. p_id pr = p) (products s) = None \<Longrightarrow>
     addToCart p q s = (False, showNotification ''Product not found'' ''error'' s)"
  by (simp add: addToCart_def)

lemma addToCart_insufficient:
  "find (\<lambda>pr. p_id pr = p) (products s) = Some product \<Longrightarrow>
   js_less (or_zero (lookup (inventory s) p)) q \<Longrightarrow>
     addToCart p (Some q) s = (False, showNotification ''Insufficient stock'' ''error'' s)"
  by (simp add: addToCart_def)

lemma addToCart_topup_refused:
  "find (\<lambda>pr. p_id pr = p) (products s) = Some product \<Longrightarrow>
   \<not> js_less (or_zero (lookup (inventory s) p)) q \<Longrightarrow>
   find (\<lambda>item. i_id item = p) (cart s) = Some item \<Longrightarrow>
   js_less (or_zero (lookup (inventory s) p)) (num_add (i_quantity item) q) \<Longrightarrow>
     addToCart p (Some q) s =
       (False, showNotification ''Not enough stock for requested quantity'' ''error'' s)"
  by (simp add: addToCart_def)

lemma addToCart_topup:
  "find (\<lambda>pr. p_id pr = p) (products s) = Some product \<Longrightarrow>
   \<not> js_less (or_zero (lookup (inventory s) p)) q \<Longrightarrow>
   find (\<lambda>item. i_id item = p) (cart s) = Some item \<Longrightarrow>
   \<not> js_less (or_zero (lookup (inventory s) p)) (num_add (i_quantity item) q) \<Longrightarrow>
     fst (addToCart p (Some q) s) = True
   \<and> cart (snd (addToCart p (Some q) s)) =
        mutate_found (\<lambda>item. i_id item = p)
          (\<lambda>it. it\<lparr>i_quantity := num_add (i_quantity item) q\<rparr>) (cart s)
   \<and> inventory (snd (addToCart p (Some q) s)) =
        assign p (js_minus (lookup (inventory s) p) q) (inventory s)"
  by (simp add: addToCart_def Let_def showNotification_def emit_def)

lemma addToCart_new_line:
  "find (\<lambda>pr. p_id pr = p) (products s) = Some product \<Longrightarrow>
   \<not> js_less (or_zero (lookup (inventory s) p)) q \<Longrightarrow>
   find (\<lambda>item. i_id item = p) (cart s) = None \<Longrightarrow>
     fst (addToCart p (Some q) s) = True
   \<and> cart (snd (addToCart p (Some q) s)) =
        cart s @ [\<lparr>i_id = p, i_name = p_name product, i_price = p_price product,
                   i_quantity = q, i_sku = p_sku product, i_image = p_image product\<rparr>]
   \<and> inventory (snd (addToCart p (Some q) s)) =
        assign p (js_minus (lookup (inventory s) p) q) (inventory s)"
  by (simp add: addToCart_def Let_def showNotification_def emit_def)


section \<open>Stock conservation\<close>

text \<open>
  C1. The closed-system invariant \<open>inventory[p] + cart quantity of p = declared stock of p\<close>
  does not survive every sequence of cart operations. From the scanned page (empty cart,
  \<open>inventory[mug-1] = 5 =\<close> declared stock), \<^verbatim>\<open>addToCart("mug-1", 3)\<close> followed by
  \<^verbatim>\<open>removeFromCart("mug-1", 10)\<close> leaves the cart without the product and the ledger
  at 12: the removal credits the requested 10, not the 3 that were held.
\<close>

theorem stock_invariant_broken:
  "cart shop0 = [] \<and> inventory shop0 ''mug-1'' = Some (Number (Num 5))
   \<and> map p_id (products shop0) = [''mug-1''] \<and> map p_inventory (products shop0) = [Num 5]
   \<and> inventory (run [AddToCart ''mug-1'' (Some (Num 3)),
                      RemoveFromCart ''mug-1'' (Some (Num 10))] shop0) ''mug-1''
       = Some (Number (Num 12))
   \<and> cart_quantity ''mug-1''
         (run [AddToCart ''mug-1'' (Some (Num 3)),
               RemoveFromCart ''mug-1'' (Some (Num 10))] shop0) = Num 0"
  by (simp add: run_def shop3_def [symmetric] removeFromCart_def cart_quantity_def
        shop3_fields shop0_fields splice1_def emit_def Let_def js_eval)


section \<open>Removing more than the cart holds\<close>

text \<open>
  C2. With 3 mugs in the cart and 2 on the ledger, \<^verbatim>\<open>removeFromCart("mug-1", 10)\<close>
  removes the whole line item, but the ledger goes from 2 to 12 and the
  \<^verbatim>\<open>item-removed\<close> event carries the quantity 10: the code releases the requested
  quantity, not the 3 actually held.
\<close>

theorem removeFromCart_over_release:
  "cart_quantity ''mug-1'' shop3 = Num 3 \<and> inventory shop3 ''mug-1'' = Some (Number (Num 2))
   \<and> fst (removeFromCart ''mug-1'' (Some (Num 10)) shop3) = True
   \<and> cart (snd (removeFromCart ''mug-1'' (Some (Num 10)) shop3)) = []
   \<and> inventory (snd (removeFromCart ''mug-1'' (Some (Num 10)) shop3)) ''mug-1''
       = Some (Number (Num 12))
   \<and> last (events (snd (removeFromCart ''mug-1'' (Some (Num 10)) shop3)))
       = ItemRemoved ''mug-1'' (Num 10) []"
  by (simp add: removeFromCart_def cart_quantity_def shop3_fields splice1_def
        emit_def Let_def js_eval)


section \<open>When an add fails\<close>

text \<open>
  C3. The code refuses a top-up that the available ledger quantity covers. With 3 mugs
  in the cart and 2 on the ledger, \<^verbatim>\<open>addToCart("mug-1", 1)\<close> and \<^verbatim>\<open>addToCart("mug-1", 2)\<close>
  are refused with \<^verbatim>\<open>Not enough stock for requested quantity\<close>, although neither
  quantity exceeds the available 2: the second check compares the ledger, from which
  the 3 held are already taken, with the held quantity plus the request. From the same
  stock of 5 a single \<^verbatim>\<open>addToCart("mug-1", 5)\<close> is accepted, and \<open>updateAddButton\<close>, which
  \<open>addToCart\<close> calls after a successful add, leaves the add button enabled for a request
  of 1.
\<close>

theorem topup_refused_within_stock:
  "inventory shop3 ''mug-1'' = Some (Number (Num 2)) \<and> cart_quantity ''mug-1'' shop3 = Num 3
   \<and> addToCart ''mug-1'' (Some (Num 1)) shop3 =
       (False, showNotification ''Not enough stock for requested quantity'' ''error'' shop3)
   \<and> addToCart ''mug-1'' (Some (Num 2)) shop3 =
       (False, showNotification ''Not enough stock for requested quantity'' ''error'' shop3)
   \<and> fst (addToCart ''mug-1'' (Some (Num 5)) shop0) = True
   \<and> map add_button (updateAddButton demo_host ''mug-1'' (shop_page, shop3)) =
       [Some \<lparr>b_text = ''Add to Cart'', b_disabled = False\<rparr>]"
proof -
  have held: "inventory shop3 ''mug-1'' = Some (Number (Num 2))
              \<and> cart_quantity ''mug-1'' shop3 = Num 3"
    by (simp add: cart_quantity_def shop3_fields js_eval)
  have one: "addToCart ''mug-1'' (Some (Num 1)) shop3 =
       (False, showNotification ''Not enough stock for requested quantity'' ''error'' shop3)"
    by (simp add: addToCart_def shop3_fields shop0_fields Let_def js_eval)
  have two: "addToCart ''mug-1'' (Some (Num 2)) shop3 =
       (False, showNotification ''Not enough stock for requested quantity'' ''error'' shop3)"
    by (simp add: addToCart_def shop3_fields shop0_fields Let_def js_eval)
  have five: "fst (addToCart ''mug-1'' (Some (Num 5)) shop0) = True"
    by (simp add: addToCart_def shop0_fields Let_def js_eval)
  have button: "map add_button (updateAddButton demo_host ''mug-1'' (shop_page, shop3)) =
       [Some \<lparr>b_text = ''Add to Cart'', b_disabled = False\<rparr>]"
    by (simp add: updateAddButton_def shop3_fields shop0_fields shop_page_fields or_one_def
          demo_host_def Let_def js_eval)
  from held one two five button show ?thesis by simp
qed

text \<open>
  C5. Whenever \<open>addToCart\<close> returns \<open>False\<close> (unknown product, insufficient stock, or the
  combined-total check of a top-up), the cart and the inventory ledger after the call
  are those before the call. The failure is the returned value: \<open>addToCart\<close> is a total
  function and every path of the source ends in a \<^verbatim>\<open>return\<close>.
\<close>

theorem addToCart_failure_atomic:
  "fst (addToCart p q s) = False \<Longrightarrow>
     cart (snd (addToCart p q s)) = cart s \<and> inventory (snd (addToCart p q s)) = inventory s"
  by (simp add: addToCart_def showNotification_def emit_def Let_def
        split: option.splits if_splits)

theorem addToCart_failure_atomic_witness:
  "fst (addToCart ''mug-1'' (Some (Num 3)) shop3) = False
   \<and> cart (snd (addToCart ''mug-1'' (Some (Num 3)) shop3)) = cart shop3
   \<and> inventory (snd (addToCart ''mug-1'' (Some (Num 3)) shop3)) = inventory shop3
   \<and> fst (addToCart ''cup-9'' (Some (Num 1)) shop3) = False
   \<and> cart (snd (addToCart ''cup-9'' (Some (Num 1)) shop3)) = cart shop3
   \<and> inventory (snd (addToCart ''cup-9'' (Some (Num 1)) shop3)) = inventory shop3"
proof -
  have short: "fst (addToCart ''mug-1'' (Some (Num 3)) shop3) = False"
    by (simp add: addToCart_def shop3_fields shop0_fields showNotification_def Let_def js_eval)
  have unknown: "fst (addToCart ''cup-9'' (Some (Num 1)) shop3) = False"
    by (simp add: addToCart_def shop3_fields shop0_fields showNotification_def Let_def)
  from addToCart_failure_atomic [OF short] addToCart_failure_atomic [OF unknown] short unknown
  show ?thesis by simp
qed



section \<open>Administrative override\<close>

text \<open>
  C4, as claimed, fails: \<^verbatim>\<open>setInventory("mug-1", -5)\<close> leaves the entry at \<open>-5\<close>. And for
  one product id the entry is not written at all: \<^verbatim>\<open>__proto__\<close> names the inherited
  accessor of the ledger object, whose setter drops a number.
\<close>

theorem setInventory_negative_counterexample:
  "inventory (setInventory ''mug-1'' (Num (- 5)) shop0) ''mug-1'' = Some (Number (Num (- 5)))
   \<and> \<not> (0::int) \<le> - 5
   \<and> inventory (setInventory ''__proto__'' (Num 7) shop0) ''__proto__'' = None"
  by (simp add: setInventory_def assign_def shop0_fields)

text \<open>
  C4, amended. For every product id \<open>p\<close> other than \<^verbatim>\<open>__proto__\<close> and every number \<open>q\<close>,
  after \<open>setInventory p q\<close> the ledger entry of \<open>p\<close> is exactly \<open>q\<close> and a read of it gives
  \<open>q\<close>; no other entry and no line item changes. The entry is at least 0 only if \<open>q\<close>
  is: the override is not clamped.
\<close>

theorem setInventory_stores_quantity:
  assumes "p \<noteq> ''__proto__''"
  shows "inventory (setInventory p q s) = (inventory s)(p \<mapsto> Number q)
       \<and> lookup (inventory (setInventory p q s)) p = Number q
       \<and> cart (setInventory p q s) = cart s"
  using assms by (simp add: setInventory_def assign_def lookup_def)

theorem setInventory_stores_quantity_witness:
  "''mug-1'' \<noteq> ''__proto__''
   \<and> inventory (setInventory ''mug-1'' (Num (- 5)) shop0) = (inventory shop0)(''mug-1'' \<mapsto> Number (Num (- 5)))
   \<and> lookup (inventory (setInventory ''mug-1'' (Num (- 5)) shop0)) ''mug-1'' = Number (Num (- 5))
   \<and> cart (setInventory ''mug-1'' (Num (- 5)) shop0) = cart shop0"
proof -
  have other: "''mug-1'' \<noteq> ''__proto__''" by simp
  from setInventory_stores_quantity [OF other, of "Num (- 5)" shop0]
  have stored: "inventory (setInventory ''mug-1'' (Num (- 5)) shop0) = (inventory shop0)(''mug-1'' \<mapsto> Number (Num (- 5)))
   \<and> lookup (inventory (setInventory ''mug-1'' (Num (- 5)) shop0)) ''mug-1'' = Number (Num (- 5))
   \<and> cart (setInventory ''mug-1'' (Num (- 5)) shop0) = cart shop0" .
  from other stored show ?thesis by (rule conjI)
qed


section \<open>Add followed by remove\<close>

text \<open>
  C6, as claimed, fails in states the public operations reach. After
  \<^verbatim>\<open>addToCart("mug-1", 0)\<close> the cart holds a line item of quantity 0; then
  \<^verbatim>\<open>addToCart("mug-1", 2)\<close> succeeds and \<^verbatim>\<open>removeFromCart("mug-1", 2)\<close> removes the
  line item instead of restoring it. For a product whose id is \<^verbatim>\<open>constructor\<close> the scan
  stores no stock (the name is inherited from \<^verbatim>\<open>Object.prototype\<close>); the add succeeds
  and the pair leaves an own ledger entry of 1 where there was none. And with a ledger
  entry of \<open>2^53 + 2\<close> the pair ends at \<open>2^53\<close>: the differences and sums are rounded.
\<close>

theorem add_then_remove_counterexample:
  "fst (addToCart ''mug-1'' (Some (Num 2)) shopZ) = True
   \<and> cart (snd (removeFromCart ''mug-1'' (Some (Num 2))
              (snd (addToCart ''mug-1'' (Some (Num 2)) shopZ)))) = []
   \<and> cart shopZ \<noteq> []
   \<and> fst (addToCart ''constructor'' (Some (Num 1)) odd_shop) = True
   \<and> inventory odd_shop ''constructor'' = None
   \<and> inventory (snd (removeFromCart ''constructor'' (Some (Num 1))
                   (snd (addToCart ''constructor'' (Some (Num 1)) odd_shop)))) ''constructor''
       = Some (Number (Num 1))
   \<and> fst (addToCart ''mug-1'' (Some (Num 1)) big_shop) = True
   \<and> inventory big_shop ''mug-1'' = Some (Number (Num (2 ^ 53 + 2)))
   \<and> inventory (snd (removeFromCart ''mug-1'' (Some (Num 1))
                   (snd (addToCart ''mug-1'' (Some (Num 1)) big_shop)))) ''mug-1''
       = Some (Number (Num (2 ^ 53)))"
proof -
  have zero: "fst (addToCart ''mug-1'' (Some (Num 2)) shopZ) = True
   \<and> cart (snd (removeFromCart ''mug-1'' (Some (Num 2))
              (snd (addToCart ''mug-1'' (Some (Num 2)) shopZ)))) = []
   \<and> cart shopZ \<noteq> []"
    by (simp add: addToCart_def removeFromCart_def shopZ_fields shop0_fields Let_def
          showNotification_def emit_def splice1_def js_eval)
  have inherited: "fst (addToCart ''constructor'' (Some (Num 1)) odd_shop) = True
   \<and> inventory odd_shop ''constructor'' = None
   \<and> inventory (snd (removeFromCart ''constructor'' (Some (Num 1))
                   (snd (addToCart ''constructor'' (Some (Num 1)) odd_shop)))) ''constructor''
       = Some (Number (Num 1))"
    by (simp add: addToCart_def removeFromCart_def odd_shop_fields Let_def
          showNotification_def emit_def splice1_def js_eval)
  have down: "num_sub (Num (2 ^ 53 + 2)) (Num 1) = Num (2 ^ 53)"
    using to_double_tie by (simp add: num_sub_def)
  have up: "num_add (Num (2 ^ 53)) (Num 1) = Num (2 ^ 53)"
    using to_double_tie by simp
  have rounded: "fst (addToCart ''mug-1'' (Some (Num 1)) big_shop) = True
   \<and> inventory big_shop ''mug-1'' = Some (Number (Num (2 ^ 53 + 2)))
   \<and> inventory (snd (removeFromCart ''mug-1'' (Some (Num 1))
                   (snd (addToCart ''mug-1'' (Some (Num 1)) big_shop)))) ''mug-1''
       = Some (Number (Num (2 ^ 53)))"
    using down up
    by (simp add: addToCart_def removeFromCart_def big_shop_fields shop0_fields Let_def
          showNotification_def emit_def splice1_def lookup_def assign_def num_truthy_def
          truthy_def)
  from zero inherited rounded show ?thesis by simp
qed

text \<open>
  C6, amended. Let the ledger hold an own entry for \<open>p\<close> that is a safe integer, and let
  \<open>p\<close> have no line item, or a line item whose quantity \<open>h\<close> is an integer of at least 1
  with \<open>h + n\<close> a safe integer. If \<open>addToCart p n\<close> succeeds for a positive integer \<open>n\<close>,
  then the \<open>removeFromCart p n\<close> that follows succeeds and returns the cart (line items,
  order, quantities) and the inventory ledger exactly to their values before the add.
\<close>

theorem add_then_remove_roundtrip:
  assumes "0 < n" and "fst (addToCart p (Some (Num n)) s) = True"
    and "inventory s p = Some (Number (Num v))" and "safe_integer v"
    and "case find (\<lambda>item. i_id item = p) (cart s) of
           None \<Rightarrow> True
         | Some item \<Rightarrow>
             (case i_quantity item of
                Num h \<Rightarrow> 1 \<le> h \<and> safe_integer (h + n)
              | _ \<Rightarrow> False)"
  shows "fst (removeFromCart p (Some (Num n)) (snd (addToCart p (Some (Num n)) s))) = True
       \<and> cart (snd (removeFromCart p (Some (Num n)) (snd (addToCart p (Some (Num n)) s))))
           = cart s
       \<and> inventory (snd (removeFromCart p (Some (Num n)) (snd (addToCart p (Some (Num n)) s))))
           = inventory s"
proof -
  obtain product where known: "find (\<lambda>pr. p_id pr = p) (products s) = Some product"
    using assms(2) by (auto simp: addToCart_def Let_def split: option.splits)
  have enough: "\<not> js_less (or_zero (lookup (inventory s) p)) (Num n)"
    using assms(2) known by (auto simp: addToCart_def Let_def split: option.splits if_splits)
  have read: "lookup (inventory s) p = Number (Num v)"
    using assms(3) by (simp add: lookup_def)
  have "n \<le> v"
    using enough assms(1) by (simp add: read num_truthy_def split: if_splits)
  with assms(1,4) have safe: "safe_integer (v - n)" "safe_integer (v - n + n)" "safe_integer n"
    by (simp_all add: safe_integer_def)
  have minus: "js_minus (lookup (inventory s) p) (Num n) = Number (Num (v - n))"
    using safe(1) by (simp add: read num_sub_safe)
  have plus: "js_plus (or_zero (Number (Num (v - n)))) (Num n) = Number (Num v)"
    using safe(2,3) \<open>n \<le> v\<close> by (simp add: num_truthy_def to_double_exact)
  have n_truthy: "truthy (Some (Num n))"
    using assms(1) by (simp add: truthy_def num_truthy_def)
  have ledger: "assign p (Number (Num v)) (assign p (Number (Num (v - n))) (inventory s))
                  = inventory s"
    using assms(3) by (auto simp: assign_def)
  have read': "lookup (assign p (Number (Num (v - n))) (inventory s)) p = Number (Num (v - n))"
    using assms(3) by (simp add: assign_def lookup_def)
  show ?thesis
  proof (cases "find (\<lambda>item. i_id item = p) (cart s)")
    case None
    let ?new = "\<lparr>i_id = p, i_name = p_name product, i_price = p_price product,
                 i_quantity = Num n, i_sku = p_sku product, i_image = p_image product\<rparr>"
    note eff = addToCart_new_line [OF known enough None]
    have idx: "findIndex (\<lambda>item. i_id item = p) (cart s @ [?new]) = Some (length (cart s))"
      using None by (intro findIndex_append_new) simp_all
    show ?thesis
      using eff idx n_truthy minus plus ledger read'
      by (simp add: removeFromCart_def Let_def emit_def splice1_def)
  next
    case (Some item)
    with assms(5) obtain h where h: "i_quantity item = Num h" "1 \<le> h" "safe_integer (h + n)"
      by (cases "i_quantity item") simp_all
    have total: "num_add (i_quantity item) (Num n) = Num (h + n)"
      using h by (simp add: to_double_exact)
    have ok: "\<not> js_less (or_zero (lookup (inventory s) p)) (num_add (i_quantity item) (Num n))"
      using assms(2) known Some enough by (auto simp: addToCart_def Let_def split: if_splits)
    note eff = addToCart_topup [OF known enough Some ok]
    let ?f = "\<lambda>it. it\<lparr>i_quantity := Num (h + n)\<rparr>"
    from find_mutate_found [OF Some, of ?f]
    obtain i where i:
      "findIndex (\<lambda>item. i_id item = p) (mutate_found (\<lambda>item. i_id item = p) ?f (cart s)) = Some i"
      "i < length (cart s)" "cart s ! i = item"
      "mutate_found (\<lambda>item. i_id item = p) ?f (cart s) = (cart s)[i := ?f item]"
      by auto
    have "safe_integer h"
      using h(2,3) assms(1) by (simp add: safe_integer_def)
    then have restore: "num_sub (Num (h + n)) (Num n) = Num h"
      using num_sub_safe [of "h + n" n] by simp
    have same: "(cart s)[i := item] = cart s" using i(3) by (metis list_update_id)
    have item: "item\<lparr>i_quantity := Num h\<rparr> = item" using h(1) by simp
    show ?thesis
      using eff i n_truthy minus plus ledger read' total h(2) assms(1) restore same item
      by (simp add: removeFromCart_def Let_def emit_def)
  qed
qed

theorem add_then_remove_roundtrip_witness:
  "(0::int) < 1 \<and> fst (addToCart ''mug-1'' (Some (Num 1)) shop3) = False
   \<and> fst (addToCart ''mug-1'' (Some (Num 1)) shop0) = True
   \<and> inventory shop0 ''mug-1'' = Some (Number (Num 5)) \<and> safe_integer 5
   \<and> find (\<lambda>item. i_id item = ''mug-1'') (cart shop0) = None
   \<and> fst (removeFromCart ''mug-1'' (Some (Num 1))
            (snd (addToCart ''mug-1'' (Some (Num 1)) shop0))) = True
   \<and> cart (snd (removeFromCart ''mug-1'' (Some (Num 1))
              (snd (addToCart ''mug-1'' (Some (Num 1)) shop0)))) = cart shop0
   \<and> inventory (snd (removeFromCart ''mug-1'' (Some (Num 1))
                   (snd (addToCart ''mug-1'' (Some (Num 1)) shop0)))) = inventory shop0"
proof -
  have pos: "(0::int) < 1" by simp
  have refused: "fst (addToCart ''mug-1'' (Some (Num 1)) shop3) = False"
    by (simp add: addToCart_def shop3_fields shop0_fields showNotification_def Let_def js_eval)
  have added: "fst (addToCart ''mug-1'' (Some (Num 1)) shop0) = True"
    by (simp add: addToCart_def shop0_fields showNotification_def emit_def Let_def js_eval)
  have entry: "inventory shop0 ''mug-1'' = Some (Number (Num 5))"
    by (simp add: shop0_fields)
  have safe: "safe_integer 5"
    by (simp add: safe_integer_def MAX_SAFE_INTEGER_def)
  have none: "find (\<lambda>item. i_id item = ''mug-1'') (cart shop0) = None"
    by (simp add: shop0_fields)
  have line: "case find (\<lambda>item. i_id item = ''mug-1'') (cart shop0) of
                None \<Rightarrow> True
              | Some item \<Rightarrow>
                  (case i_quantity item of
                     Num h \<Rightarrow> 1 \<le> h \<and> safe_integer (h + 1)
                   | _ \<Rightarrow> False)"
    by (simp add: none)
  from add_then_remove_roundtrip [OF pos added entry safe line] refused added entry safe none
  show ?thesis by simp
qed



section \<open>Adding a quantity that is not positive\<close>





section \<open>Remote checkout\<close>

text \<open>
  C9. With an API endpoint configured and a cart that is not empty, a checkout whose
  submission is not acknowledged (the request fails, or the response is not ok) leaves
  the cart, the inventory ledger and the recorded orders as they were and emits
  \<^verbatim>\<open>checkout-started\<close> followed by \<^verbatim>\<open>api-error\<close>. A second \<open>startCheckout\<close> is accepted:
  it emits \<^verbatim>\<open>checkout-started\<close> for the same cart and totals and, when its submission is
  acknowledged, records the order and clears the cart.
\<close>

theorem remote_checkout_failure_retryable:
  assumes "apiEndpoint (options s) = Some url" and "url \<noteq> []" and "cart s \<noteq> []"
    and "\<not> acknowledged (fetch_result env)"
  shows "cart (startCheckout h env s) = cart s
       \<and> inventory (startCheckout h env s) = inventory s
       \<and> orders (startCheckout h env s) = orders s
       \<and> events (startCheckout h env s) =
           events s @ [CheckoutStarted \<lparr>cd_cart = cart s, cd_totals = calculateTotals h s,
                                        cd_timestamp = now_iso env\<rparr>, ApiError]
       \<and> events (startCheckout h env2 (startCheckout h env s))
           ! length (events (startCheckout h env s))
           = CheckoutStarted \<lparr>cd_cart = cart s, cd_totals = calculateTotals h s,
                               cd_timestamp = now_iso env2\<rparr>
       \<and> (acknowledged (fetch_result env2) \<longrightarrow>
            cart (startCheckout h env2 (startCheckout h env s)) = []
          \<and> orders (startCheckout h env2 (startCheckout h env s)) =
              orders s @ [\<lparr>o_data = \<lparr>cd_cart = cart s, cd_totals = calculateTotals h s,
                                       cd_timestamp = now_iso env2\<rparr>,
                            o_id = date_now env2, o_status = ''completed''\<rparr>])"
proof -
  define s' where "s' = startCheckout h env s"
  have s': "s' = emit ApiError (showNotification ''Checkout failed. Please try again.'' ''error''
              (emit (CheckoutStarted \<lparr>cd_cart = cart s, cd_totals = calculateTotals h s,
                                       cd_timestamp = now_iso env\<rparr>) s))"
    unfolding s'_def using assms
    by (cases "fetch_result env" rule: acknowledged.cases)
       (simp_all add: startCheckout_def submitToAPI_def emit_def Let_def split: bool.splits)
  have keep: "cart s' = cart s" "inventory s' = inventory s" "orders s' = orders s"
    "options s' = options s"
    "events s' = events s @ [CheckoutStarted \<lparr>cd_cart = cart s, cd_totals = calculateTotals h s,
                                        cd_timestamp = now_iso env\<rparr>, ApiError]"
    by (simp_all add: s' emit_def showNotification_def)
  have totals: "calculateTotals h s' = calculateTotals h s"
    by (simp add: calculateTotals_def keep)
  have second: "events (startCheckout h env2 s') ! length (events s')
           = CheckoutStarted \<lparr>cd_cart = cart s, cd_totals = calculateTotals h s,
                               cd_timestamp = now_iso env2\<rparr>"
    using assms(1-3)
    by (cases "fetch_result env2" rule: acknowledged.cases)
       (simp_all add: startCheckout_def submitToAPI_def completeCheckout_def clearCart_def
          showNotification_def emit_def Let_def keep totals nth_append split: bool.splits)
  have retry: "acknowledged (fetch_result env2) \<longrightarrow>
            cart (startCheckout h env2 s') = []
          \<and> orders (startCheckout h env2 s') =
              orders s @ [\<lparr>o_data = \<lparr>cd_cart = cart s, cd_totals = calculateTotals h s,
                                       cd_timestamp = now_iso env2\<rparr>,
                            o_id = date_now env2, o_status = ''completed''\<rparr>]"
    using assms(1-3)
    by (cases "fetch_result env2" rule: acknowledged.cases)
       (simp_all add: startCheckout_def submitToAPI_def completeCheckout_def clearCart_def
          showNotification_def emit_def Let_def keep totals split: bool.splits)
  from keep second retry show ?thesis
    unfolding s'_def by simp
qed

theorem remote_checkout_failure_retryable_witness:
  "apiEndpoint (options remote_shop) = Some ''/api/checkout'' \<and> ''/api/checkout'' \<noteq> []
   \<and> cart remote_shop \<noteq> [] \<and> \<not> acknowledged (fetch_result offline_env)
   \<and> acknowledged (fetch_result online_env)
   \<and> cart (startCheckout demo_host offline_env remote_shop) = cart remote_shop
   \<and> inventory (startCheckout demo_host offline_env remote_shop) = inventory remote_shop
   \<and> orders (startCheckout demo_host offline_env remote_shop) = []
   \<and> last (events (startCheckout demo_host offline_env remote_shop)) = ApiError
   \<and> cart (startCheckout demo_host online_env (startCheckout demo_host offline_env remote_shop)) = []
   \<and> length (orders (startCheckout demo_host online_env
                        (startCheckout demo_host offline_env remote_shop))) = 1"
proof -
  have endpoint: "apiEndpoint (options remote_shop) = Some ''/api/checkout''"
    by (simp add: remote_shop_fields remote_options_def)
  have url: "''/api/checkout'' \<noteq> []" by simp
  have filled: "cart remote_shop \<noteq> []" by (simp add: remote_shop_fields)
  have failed: "\<not> acknowledged (fetch_result offline_env)" by (simp add: offline_env_def)
  have ok: "acknowledged (fetch_result online_env)" by (simp add: online_env_def)
  from remote_checkout_failure_retryable [OF endpoint url filled failed, of demo_host online_env]
    endpoint filled failed ok
  show ?thesis by (simp add: remote_shop_fields)
qed



section \<open>Scanning twice\<close>

text \<open>
  C7, as claimed, fails twice. A product element without a \<^verbatim>\<open>data-pos-name\<close> attribute
  takes its name from its text content, which after the first scan includes the texts
  of the button and the stock display the scan has appended: the second scan yields
  another product list. And two product elements with the same identifier give two
  entries with that identifier: the list is rebuilt from the document, no entry is
  replaced by identifier.
\<close>

theorem scanProducts_twice_counterexample:
  "map p_name (products (snd (scanProducts demo_host ([plain_element], new_pos default_options))))
     = [''Mug'']
   \<and> map p_name (products (snd (scanProducts demo_host
         (scanProducts demo_host ([plain_element], new_pos default_options)))))
     = [''MugAdd to CartStock: 5'']
   \<and> map p_id (products (snd (scanProducts demo_host
         ([mug_element, mug_element], new_pos default_options))))
     = [''mug-1'', ''mug-1'']"
proof -
  have one: "map p_name (products (snd (scanProducts demo_host
                ([plain_element], new_pos default_options)))) = [''Mug'']"
    by (simp add: scanProducts_def productElements_def plain_element_def scan_element_def
          parseProductElement_def getAttribute_def textContent_def
          demo_host_def new_pos_def initializeInventory_def emit_def Let_def)
  have two: "map p_name (products (snd (scanProducts demo_host
         (scanProducts demo_host ([plain_element], new_pos default_options)))))
     = [''MugAdd to CartStock: 5'']"
    by (simp add: scanProducts_def productElements_def plain_element_def
          scan_element_def parseProductElement_def getAttribute_def textContent_def
          demo_host_def new_pos_def default_options_def initializeInventory_def
          emit_def Let_def enhanceProductElement_def updateStockDisplay_def
          updateAddButton_def or_one_def show_int_def digits.simps js_eval)
  have three: "map p_id (products (snd (scanProducts demo_host
         ([mug_element, mug_element], new_pos default_options)))) = [''mug-1'', ''mug-1'']"
    unfolding scanProducts_ids
    by (simp add: productElements_def map_filter_simps
          parseProductElement_def getAttribute_def mug_element_def demo_host_def Let_def)
  from one two three show ?thesis by simp
qed

text \<open>
  C7, amended. For every document, running \<open>scanProducts\<close> twice in succession yields
  the same product identifiers in the same order and the same inventory ledger as
  running it once, and a scan never alters an inventory entry that already exists. The
  two product lists are identical when every product element of the document carries a
  \<^verbatim>\<open>data-pos-name\<close> attribute that is not empty. The product list is rebuilt with one
  entry for each valid product element, so it is free of duplicate identifiers when the
  product elements of the document carry pairwise distinct identifiers.
\<close>

theorem scanProducts_twice:
  "((\<forall>el \<in> set doc. getAttribute el ''data-pos-product'' \<noteq> None \<longrightarrow> name_given el) \<longrightarrow>
       products (snd (scanProducts h (scanProducts h (doc, s))))
         = products (snd (scanProducts h (doc, s))))
   \<and> map p_id (products (snd (scanProducts h (scanProducts h (doc, s)))))
       = map p_id (products (snd (scanProducts h (doc, s))))
   \<and> inventory (snd (scanProducts h (scanProducts h (doc, s))))
       = inventory (snd (scanProducts h (doc, s)))
   \<and> (\<forall>p v. inventory s p = Some v \<longrightarrow>
         inventory (snd (scanProducts h (doc, s))) p = Some v)
   \<and> (distinct (product_ids doc) \<longrightarrow>
         distinct (map p_id (products (snd (scanProducts h (doc, s))))))"
proof -
  have kept: "\<forall>p v. inventory s p = Some v \<longrightarrow>
                inventory (snd (scanProducts h (doc, s))) p = Some v"
    by (simp add: scanProducts_keeps_entry)
  have unique: "distinct (product_ids doc) \<longrightarrow>
                  distinct (map p_id (products (snd (scanProducts h (doc, s)))))"
    unfolding scanProducts_ids by (simp add: scanned_ids_distinct)
  from scanProducts_second_products [of doc h s] scanProducts_second_ids [of h doc s]
    scanProducts_second_inventory [of h doc s] kept unique
  show ?thesis by simp
qed

theorem scanProducts_twice_witness:
  "name_given mug_element \<and> name_given tea_element
   \<and> distinct (product_ids [mug_element, tea_element])
   \<and> inventory (setInventory ''mug-1'' (Num 2) (new_pos default_options)) ''mug-1''
       = Some (Number (Num 2))
   \<and> products (snd (scanProducts demo_host (scanProducts demo_host
         ([mug_element, tea_element], setInventory ''mug-1'' (Num 2) (new_pos default_options)))))
     = products (snd (scanProducts demo_host
         ([mug_element, tea_element], setInventory ''mug-1'' (Num 2) (new_pos default_options))))
   \<and> inventory (snd (scanProducts demo_host (scanProducts demo_host
         ([mug_element, tea_element], setInventory ''mug-1'' (Num 2) (new_pos default_options)))))
     = inventory (snd (scanProducts demo_host
         ([mug_element, tea_element], setInventory ''mug-1'' (Num 2) (new_pos default_options))))
   \<and> inventory (snd (scanProducts demo_host
         ([mug_element, tea_element], setInventory ''mug-1'' (Num 2) (new_pos default_options))))
       ''mug-1''
     = Some (Number (Num 2))
   \<and> distinct (map p_id (products (snd (scanProducts demo_host
         ([mug_element, tea_element], setInventory ''mug-1'' (Num 2) (new_pos default_options))))))"
proof -
  have names: "name_given mug_element \<and> name_given tea_element"
    by (simp add: name_given_def getAttribute_def mug_element_def tea_element_def)
  then have named: "\<forall>el \<in> set [mug_element, tea_element].
                 getAttribute el ''data-pos-product'' \<noteq> None \<longrightarrow> name_given el"
    by simp
  have ids: "distinct (product_ids [mug_element, tea_element])"
    by (simp add: product_ids_def map_filter_simps getAttribute_def mug_element_def
          tea_element_def)
  have entry: "inventory (setInventory ''mug-1'' (Num 2) (new_pos default_options)) ''mug-1''
                 = Some (Number (Num 2))"
    by (simp add: setInventory_def assign_def new_pos_def)
  note twice = scanProducts_twice [of "[mug_element, tea_element]" demo_host
                 "setInventory ''mug-1'' (Num 2) (new_pos default_options)"]
  from twice [THEN conjunct1, THEN mp, OF named] have same_products:
    "products (snd (scanProducts demo_host (scanProducts demo_host
         ([mug_element, tea_element], setInventory ''mug-1'' (Num 2) (new_pos default_options)))))
     = products (snd (scanProducts demo_host
         ([mug_element, tea_element], setInventory ''mug-1'' (Num 2) (new_pos default_options))))" .
  from twice [THEN conjunct2, THEN conjunct2, THEN conjunct1] have same_inventory:
    "inventory (snd (scanProducts demo_host (scanProducts demo_host
         ([mug_element, tea_element], setInventory ''mug-1'' (Num 2) (new_pos default_options)))))
     = inventory (snd (scanProducts demo_host
         ([mug_element, tea_element], setInventory ''mug-1'' (Num 2) (new_pos default_options))))" .
  from twice [THEN conjunct2, THEN conjunct2, THEN conjunct2, THEN conjunct1, THEN spec, THEN spec,
    THEN mp, OF entry]
  have kept:
    "inventory (snd (scanProducts demo_host
         ([mug_element, tea_element], setInventory ''mug-1'' (Num 2) (new_pos default_options))))
       ''mug-1''
     = Some (Number (Num 2))" .
  from twice [THEN conjunct2, THEN conjunct2, THEN conjunct2, THEN conjunct2, THEN mp, OF ids]
  have unique:
    "distinct (map p_id (products (snd (scanProducts demo_host
         ([mug_element, tea_element], setInventory ''mug-1'' (Num 2) (new_pos default_options))))))" .
  from names ids entry same_products same_inventory kept unique show ?thesis
    by (intro conjI) simp_all
qed


end
